theory Spec2Isabelle
  imports Main "HOL-Library.AList"
begin

section \<open>Python values, results and string primitives\<close>

text \<open>
  The decoder of the mortality extract is written in Python. Its strings are modelled as
  \<^typ>\<open>string\<close> (the extract is ASCII; a line is a list of 8-bit characters), its
  unbounded integers as \<^typ>\<open>int\<close>. The \<^verbatim>\<open>Result\<close> type of the
  \<^verbatim>\<open>resulty\<close> library is a sum: \<open>Inr v\<close> is \<^verbatim>\<open>Ok(v)\<close>,
  \<open>Inl (Err msg)\<close> is \<^verbatim>\<open>Err(msg)\<close>. A Python exception that no
  handler of the program catches (a \<^verbatim>\<open>KeyError\<close>, an \<^verbatim>\<open>IndexError\<close>)
  is \<open>Inl (Raised x)\<close>: it leaves every enclosing function, as it does in Python.
\<close>

datatype pyexn =
    KeyError int | IndexError | ValueError string | AttributeError | SchemaError | CastError

datatype failure = Err string | Raised pyexn

type_synonym 'a result = "failure + 'a"

text \<open>
  \<^verbatim>\<open>r.up()\<close> inside a function decorated with \<^verbatim>\<open>@propagate_result\<close>:
  the value of an \<^verbatim>\<open>Ok\<close>, and for an \<^verbatim>\<open>Err\<close> the decorated function
  returns that \<^verbatim>\<open>Err\<close> at once. \<open>up r k\<close> runs the continuation \<open>k\<close> on the value.
\<close>

definition up :: "'a result \<Rightarrow> ('a \<Rightarrow> 'b result) \<Rightarrow> 'b result" where
  "up r k = (case r of Inl e \<Rightarrow> Inl e | Inr v \<Rightarrow> k v)"

text \<open>
  The values the decoders store in a row: \<^verbatim>\<open>None\<close>, booleans, integers, strings,
  a pair of integers (an age range), lists, and dictionaries in insertion order.
\<close>

datatype pyval =
    PNone
  | PBool bool
  | PInt int
  | PStr string
  | PTuple int int
  | PList "pyval list"
  | PDict "(string \<times> pyval) list"

type_synonym pydict = "(string \<times> pyval) list"

text \<open>Python truthiness, as used by \<^verbatim>\<open>if x:\<close> and \<^verbatim>\<open>x or y\<close>.\<close>

fun truthy :: "pyval \<Rightarrow> bool" where
  "truthy PNone = False"
| "truthy (PBool b) = b"
| "truthy (PInt i) = (i \<noteq> 0)"
| "truthy (PStr s) = (s \<noteq> [])"
| "truthy (PTuple lo hi) = True"
| "truthy (PList xs) = (xs \<noteq> [])"
| "truthy (PDict kvs) = (kvs \<noteq> [])"

definition py_or :: "pyval \<Rightarrow> pyval \<Rightarrow> pyval" where
  "py_or x y = (if truthy x then x else y)"

text \<open>\<^verbatim>\<open>d.get(k)\<close> and \<^verbatim>\<open>k in d.keys()\<close> on a dictionary.\<close>

definition dict_get :: "('k \<times> pyval) list \<Rightarrow> 'k \<Rightarrow> pyval" where
  "dict_get d k = (case map_of d k of None \<Rightarrow> PNone | Some v \<Rightarrow> v)"

definition has_key :: "('k \<times> pyval) list \<Rightarrow> 'k \<Rightarrow> bool" where
  "has_key d k = (map_of d k \<noteq> None)"

text \<open>
  \<^verbatim>\<open>str.strip()\<close> removes the characters Python counts as whitespace; among the
  8-bit characters these are 0x09-0x0D, 0x1C-0x20, 0x85 and 0xA0.
\<close>

definition py_isspace :: "char \<Rightarrow> bool" where
  "py_isspace c = (c \<in> set [CHR 0x09, CHR 0x0A, CHR 0x0B, CHR 0x0C, CHR 0x0D,
     CHR 0x1C, CHR 0x1D, CHR 0x1E, CHR 0x1F, CHR 0x20, CHR 0x85, CHR 0xA0])"

definition strip :: "string \<Rightarrow> string" where
  "strip s = rev (dropWhile py_isspace (rev (dropWhile py_isspace s)))"

text \<open>\<^verbatim>\<open>s[i:j]\<close> for indices \<open>0 \<le> i\<close>, \<open>0 \<le> j\<close>: never raises, clips at the end.\<close>

definition slice :: "'a list \<Rightarrow> nat \<Rightarrow> nat \<Rightarrow> 'a list" where
  "slice s i j = take (j - i) (drop i s)"

text \<open>\<^verbatim>\<open>s.startswith(p)\<close> and \<^verbatim>\<open>s.split(c)\<close> for a one-character separator.\<close>

definition startswith :: "string \<Rightarrow> string \<Rightarrow> bool" where
  "startswith s p = (take (length p) s = p)"

fun split :: "char \<Rightarrow> string \<Rightarrow> string list" where
  "split c [] = [[]]"
| "split c (x # xs) =
     (if x = c then [] # split c xs
      else (case split c xs of [] \<Rightarrow> [[x]] | p # ps \<Rightarrow> (x # p) # ps))"

text \<open>
  \<^verbatim>\<open>int(s)\<close> on a string, base 10: surrounding whitespace is skipped (the integer
  parser's own set: 0x09-0x0D, 0x20, and 0x85, 0xA0 which are first turned into blanks),
  then an optional sign, then decimal digits in which single underscores may separate
  digits. Anything else raises \<^verbatim>\<open>ValueError\<close>, here \<open>None\<close>; so does a
  text of more than 4300 digits, the default limit of CPython (3.11 and later) on the
  conversion of a string to an integer.
\<close>

definition max_str_digits :: nat where
  "max_str_digits = 4300"

definition int_isspace :: "char \<Rightarrow> bool" where
  "int_isspace c = (c \<in> set [CHR 0x09, CHR 0x0A, CHR 0x0B, CHR 0x0C, CHR 0x0D,
     CHR 0x20, CHR 0x85, CHR 0xA0])"

definition is_digit :: "char \<Rightarrow> bool" where
  "is_digit c = (c \<in> set ''0123456789'')"

definition digit_of :: "char \<Rightarrow> nat" where
  "digit_of c = of_char c - 48"

fun parse_digits :: "nat \<Rightarrow> string \<Rightarrow> nat option" where
  "parse_digits acc [] = Some acc"
| "parse_digits acc [c] = (if is_digit c then Some (10 * acc + digit_of c) else None)"
| "parse_digits acc (c # d # ds) =
     (if is_digit c then parse_digits (10 * acc + digit_of c) (d # ds)
      else if c = CHR ''_'' \<and> is_digit d then parse_digits (10 * acc + digit_of d) ds
      else None)"

definition parse_unsigned :: "string \<Rightarrow> nat option" where
  "parse_unsigned s =
     (case s of [] \<Rightarrow> None
      | c # cs \<Rightarrow>
          if is_digit c then
            (if max_str_digits < length (filter is_digit s) then None
             else parse_digits (digit_of c) cs)
          else None)"

definition py_int :: "string \<Rightarrow> int option" where
  "py_int s =
     (let t = rev (dropWhile int_isspace (rev (dropWhile int_isspace s)))
      in case t of
           [] \<Rightarrow> None
         | c # cs \<Rightarrow>
             if c = CHR ''-'' then map_option (\<lambda>n. - int n) (parse_unsigned cs)
             else if c = CHR ''+'' then map_option int (parse_unsigned cs)
             else map_option int (parse_unsigned t))"

text \<open>\<^verbatim>\<open>str(v)\<close> of an integer, as an f-string renders \<^verbatim>\<open>{v}\<close>.\<close>

fun str_nat :: "nat \<Rightarrow> string" where
  "str_nat n = (if n < 10 then [''0123456789'' ! n]
                else str_nat (n div 10) @ [''0123456789'' ! (n mod 10)])"

declare str_nat.simps [simp del]

definition py_str :: "int \<Rightarrow> string" where
  "py_str v = (if v < 0 then CHR ''-'' # str_nat (nat (- v)) else str_nat (nat v))"

subsection \<open>utils.py\<close>

definition try_parse_int :: "string \<Rightarrow> int result" where
  "try_parse_int s =
     (case py_int s of
        Some i \<Rightarrow> Inr i
      | None \<Rightarrow> Inl (Err (''Could not parse '' @ [CHR 0x27] @ s @ [CHR 0x27] @ '' as an integer.'')))"

definition maybe_del :: "pydict \<Rightarrow> string \<Rightarrow> pydict" where
  "maybe_del d key = AList.delete key d"

fun get_in_range :: "((int \<times> int) \<times> pyval) list \<Rightarrow> int \<Rightarrow> pyval" where
  "get_in_range [] v = PNone"
| "get_in_range (((start, end), val) # d) v =
     (if start \<le> v \<and> v \<le> end then val else get_in_range d v)"

definition range_keyed_dict_has_key :: "((int \<times> int) \<times> pyval) list \<Rightarrow> int \<Rightarrow> bool" where
  "range_keyed_dict_has_key d v = list_ex (\<lambda>((start, end), val). start \<le> v \<and> v \<le> end) d"


section \<open>schema.py: the code tables\<close>

text \<open>
  Each table is the dictionary of the source in its order; a value \<^verbatim>\<open>None\<close> marks a
  code that is valid but has no label.
\<close>

definition record_type_mapping :: "(int \<times> pyval) list" where
  "record_type_mapping =
    [(1, PStr ''RESIDENTS''),
     (2, PStr ''NONRESIDENTS'')]"

definition resident_status_mapping :: "(int \<times> pyval) list" where
  "resident_status_mapping =
    [(1, PStr ''RESIDENT''),
     (2, PStr ''INTRASTATE_NONRESIDENT''),
     (3, PStr ''INTERSTATE_NONRESIDENT''),
     (4, PStr ''FOREIGN_RESIDENT'')]"

definition education_mapping :: "(int \<times> pyval) list" where
  "education_mapping =
    [(1, PStr ''8TH_GRADE_OR_LESS''),
     (2, PStr ''9_12TH_GRADE_NO_DIPLOMA''),
     (3, PStr ''HIGH_SCHOOL_GRADUATE_OR_GED_COMPLETED''),
     (4, PStr ''SOME_COLLEGE_CREDIT_NO_DEGREE''),
     (5, PStr ''ASSOCIATE_DEGREE''),
     (6, PStr ''BACHELOR_DEGREE''),
     (7, PStr ''MASTER_DEGREE''),
     (8, PStr ''DOCTORATE_DEGREE_OR_PROFESSIONAL_DEGREE''),
     (9, PNone)]"

definition education_reporting_flag_mapping :: "(int \<times> pyval) list" where
  "education_reporting_flag_mapping =
    [(1, PStr ''2003_REVISION''),
     (2, PStr ''NO_EDUCATION_ITEM_ON_CERTIFICATE'')]"

definition sex_mapping :: "(string \<times> pyval) list" where
  "sex_mapping =
    [(''M'', PStr ''M''),
     (''F'', PStr ''F'')]"

definition place_of_death_mapping :: "(int \<times> pyval) list" where
  "place_of_death_mapping =
    [(1, PStr ''HOSPITAL_CLINIC_OR_MEDICAL_CENTER_INPATIENT''),
     (2, PStr ''HOSPITAL_CLINIC_OR_MEDICAL_CENTER_OUTPATIENT_OR_ER''),
     (3, PStr ''HOSPITAL_CLINIC_OR_MEDICAL_CENTER_DEAD_ON_ARRIVAL''),
     (4, PStr ''DECEDENT_S_HOME''),
     (5, PStr ''HOSPICE_FACILITY''),
     (6, PStr ''NURSING_HOME_LONG_TERM_CARE''),
     (7, PStr ''OTHER''),
     (9, PNone)]"

definition marital_status_mapping :: "(string \<times> pyval) list" where
  "marital_status_mapping =
    [(''S'', PStr ''NEVER_MARRIED_SINGLE''),
     (''M'', PStr ''MARRIED''),
     (''W'', PStr ''WIDOWED''),
     (''D'', PStr ''DIVORCED''),
     (''U'', PNone)]"

definition day_of_week_of_death_mapping :: "(int \<times> pyval) list" where
  "day_of_week_of_death_mapping =
    [(1, PStr ''SUNDAY''),
     (2, PStr ''MONDAY''),
     (3, PStr ''TUESDAY''),
     (4, PStr ''WEDNESDAY''),
     (5, PStr ''THURSDAY''),
     (6, PStr ''FRIDAY''),
     (7, PStr ''SATURDAY''),
     (9, PNone)]"

definition injury_at_work_mapping :: "(string \<times> pyval) list" where
  "injury_at_work_mapping =
    [(''Y'', PBool True),
     (''N'', PBool False),
     (''U'', PNone)]"

definition manner_of_death_mapping :: "(int \<times> pyval) list" where
  "manner_of_death_mapping =
    [(1, PStr ''ACCIDENT''),
     (2, PStr ''SUICIDE''),
     (3, PStr ''HOMICIDE''),
     (4, PStr ''PENDING_INVESTIGATION''),
     (5, PStr ''COULD_NOT_DETERMINE''),
     (6, PStr ''SELF_INFLICTED''),
     (7, PStr ''NATURAL'')]"

definition method_of_disposition_mapping :: "(string \<times> pyval) list" where
  "method_of_disposition_mapping =
    [(''B'', PStr ''BURIAL''),
     (''C'', PStr ''CREMATION''),
     (''D'', PStr ''DONATION''),
     (''E'', PStr ''ENTOMBMENT''),
     (''O'', PStr ''OTHER''),
     (''R'', PStr ''REMOVAL_FROM_JURISDICTION''),
     (''U'', PNone)]"

definition autopsy_mapping :: "(string \<times> pyval) list" where
  "autopsy_mapping =
    [(''Y'', PBool True),
     (''N'', PBool False),
     (''U'', PNone)]"

definition activity_code_mapping :: "(int \<times> pyval) list" where
  "activity_code_mapping =
    [(0, PStr ''ENGAGED_IN_SPORTS''),
     (1, PStr ''ENGAGED_IN_LEISURE_ACTIVITY''),
     (2, PStr ''WORKING_FOR_INCOME''),
     (3, PStr ''ENGAGED_IN_OTHER_TYPES_OF_WORK''),
     (4, PStr ''VITAL_ACTIVITIES''),
     (8, PNone),
     (9, PNone)]"

definition place_of_injury_mapping :: "(int \<times> pyval) list" where
  "place_of_injury_mapping =
    [(0, PStr ''HOME''),
     (1, PStr ''RESIDENTIAL_INSTITUTION''),
     (2, PStr ''INSTITUTION_OR_PUBLIC_ADMINISTRATIVE_AREA''),
     (3, PStr ''SPORTS_AND_ATTHLETICS_AREA''),
     (4, PStr ''STREET_AND_HIGHWAY''),
     (5, PStr ''TRADE_AND_SERVICE_AREA''),
     (6, PStr ''INDUSTRIAL_AND_CONSTRUCTION_AREA''),
     (7, PStr ''FARM''),
     (8, PNone),
     (9, PNone)]"

definition race_recode_6_mapping :: "(int \<times> pyval) list" where
  "race_recode_6_mapping =
    [(1, PStr ''WHITE''),
     (2, PStr ''BLACK''),
     (3, PStr ''AMERICAN_INDIAN_AND_ALASKA_NATIVE''),
     (4, PStr ''ASIAN''),
     (5, PStr ''NATIVE_HAWAIIAN_AND_OTHER_PACIFIC_ISLANDER''),
     (6, PStr ''MORE_THAN_ONE_R'')]"

definition hispanic_origin_mapping :: "((int \<times> int) \<times> pyval) list" where
  "hispanic_origin_mapping =
    [((100, 199), PStr ''NON_HISPANIC''),
     ((200, 209), PStr ''SPANIARD''),
     ((210, 219), PStr ''MEXICAN''),
     ((220, 230), PStr ''CENTRAL_AMERICAN''),
     ((231, 249), PStr ''SOUTH_AMERICAN''),
     ((250, 259), PStr ''LATIN_AMERICAN''),
     ((260, 269), PStr ''PUERTO_RICAN''),
     ((270, 274), PStr ''CUBAN''),
     ((275, 279), PStr ''DOMINICAN''),
     ((280, 299), PStr ''OTHER_HISPANIC''),
     ((996, 999), PNone)]"

definition hispanic_origin_race_recode_mapping :: "(int \<times> pyval) list" where
  "hispanic_origin_race_recode_mapping =
    [(1, PStr ''MEXICAN''),
     (2, PStr ''PUERTO_RICAN''),
     (3, PStr ''CUBAN''),
     (4, PStr ''DOMINICAN''),
     (5, PStr ''CENTRAL_AMERICAN''),
     (6, PStr ''SOUTH_AMERICAN''),
     (7, PStr ''OTHER_HISPANIC''),
     (8, PStr ''NON_HISPANIC_WHITE''),
     (9, PStr ''NON_HISPANIC_BLACK''),
     (10, PStr ''NON_HISPANIC_AMERICAN_INDIAN_AND_ALASKA_NATIVE''),
     (11, PStr ''NON_HISPANIC_ASIAN''),
     (12, PStr ''NON_HISPANIC_NATIVE_HAWAIIAN_AND_OTHER_PACIFIC_ISLANDER''),
     (13, PStr ''NON_HISPANIC_MORE_THAN_ONE_R''),
     (14, PNone)]"

definition race_recode_40_mapping :: "(int \<times> pyval) list" where
  "race_recode_40_mapping =
    [(1, PStr ''WHITE''),
     (2, PStr ''BLACK''),
     (3, PStr ''AIAN''),
     (4, PStr ''ASIAN_INDIAN''),
     (5, PStr ''CHINESE''),
     (6, PStr ''FILIPINO''),
     (7, PStr ''JAPANESE''),
     (8, PStr ''KOREAN''),
     (9, PStr ''VIETNAMESE''),
     (10, PStr ''OTHER_ASIAN''),
     (11, PStr ''HAWAIIAN''),
     (12, PStr ''GUAMANIAN''),
     (13, PStr ''SAMOAN''),
     (14, PStr ''OTHER_PACIFIC_ISLANDER''),
     (15, PStr ''BLACK_WHITE''),
     (16, PStr ''BLACK_AIAN''),
     (17, PStr ''BLACK_ASIAN''),
     (18, PStr ''BLACK_NHOPI''),
     (19, PStr ''AIAN_WHITE''),
     (20, PStr ''AIAN_ASIAN''),
     (21, PStr ''AIAN_NHOPI''),
     (22, PStr ''ASIAN_WHITE''),
     (23, PStr ''ASIAN_NHOPI''),
     (24, PStr ''NHOPI_WHITE''),
     (25, PStr ''BLACK_AIAN_WHITE''),
     (26, PStr ''BLACK_AIAN_ASIAN''),
     (27, PStr ''BLACK_AIAN_NHOPI''),
     (28, PStr ''BLACK_ASIAN_WHITE''),
     (29, PStr ''BLACK_ASIAN_NHOPI''),
     (30, PStr ''BLACK_NHOPI_WHITE''),
     (31, PStr ''AIAN_ASIAN_WHITE''),
     (32, PStr ''AIAN_NHOPI_WHITE''),
     (33, PStr ''AIAN_ASIAN_NHOPI''),
     (34, PStr ''ASIAN_NHOPI_WHITE''),
     (35, PStr ''BLACK_AIAN_ASIAN_WHITE''),
     (36, PStr ''BLACK_AIAN_ASIAN_NHOPI''),
     (37, PStr ''BLACK_AIAN_NHOPI_WHITE''),
     (38, PStr ''BLACK_ASIAN_NHOPI_WHITE''),
     (39, PStr ''AIAN_ASIAN_NHOPI_WHITE''),
     (40, PStr ''BLACK_AIAN_ASIAN_NHOPI_WHITE'')]"

definition decedent_occupation_recode_mapping :: "(int \<times> pyval) list" where
  "decedent_occupation_recode_mapping =
    [(1, PStr ''MANAGEMENT''),
     (2, PStr ''BUSINESS_AND_FINANCIAL_OPERATIONS''),
     (3, PStr ''COMPUTATIONAL_AND_MATHEMATICAL''),
     (4, PStr ''ARCHITECTURE_AND_ENGINEERING''),
     (5, PStr ''LIFE_PHYSICAL_AND_SOCIAL_SCIENCE''),
     (6, PStr ''COMMUNITY_AND_SOCIAL_SERVICES''),
     (7, PStr ''LEGAL''),
     (8, PStr ''EDUCATION_TRAINING_AND_LIBRARY''),
     (9, PStr ''ARTS_DESIGN_ENTERTAINMENT_SPORTS_AND_MEDIA''),
     (10, PStr ''HEALTHCARE_PRACTITIONERS_AND_TECHNICAL''),
     (11, PStr ''HEALTHCARE_SUPPORT''),
     (12, PStr ''PROTECTIVE_SERVICE''),
     (13, PStr ''FOOD_PREPARATION_AND_SERVING''),
     (14, PStr ''BUILDING_AND_GROUNDS_CLEANING_AND_MAINTENANCE''),
     (15, PStr ''PERSONAL_CARE_AND_SERVICE''),
     (16, PStr ''SALES_AND_RELATED''),
     (17, PStr ''OFFICE_AND_ADMINISTRATIVE_SUPPORT''),
     (18, PStr ''FARMING_FISHING_AND_FORESTRY''),
     (19, PStr ''CONSTRUCTION_AND_EXTRACTION''),
     (20, PStr ''INSTALLATION_MAINTENANCE_AND_REPAIR''),
     (21, PStr ''PRODUCTION''),
     (22, PStr ''TRANSPORTATION_AND_MATERIAL_MOVING''),
     (24, PStr ''MILITARY''),
     (25, PNone),
     (26, PStr ''HOUSEWIFE'')]"

definition decedent_industry_recode_mapping :: "(int \<times> pyval) list" where
  "decedent_industry_recode_mapping =
    [(1, PStr ''AGRICULTURE_FORESTRY_FISHING_AND_HUNTING''),
     (2, PStr ''MINING''),
     (3, PStr ''UTILITIES''),
     (4, PStr ''CONSTRUCTION''),
     (5, PStr ''MANUFACTURING''),
     (6, PStr ''WHOLESALE_TRADE''),
     (7, PStr ''RETAIL_TRADE''),
     (8, PStr ''TRANSPORTATION_AND_WAREHOUSING''),
     (9, PStr ''INFORMATION''),
     (10, PStr ''FINANCE_AND_INSURANCE''),
     (11, PStr ''REAL_ESTATE_RENTAL_AND_LEASING''),
     (12, PStr ''PROFESSIONAL_SCIENTIFIC_AND_TECHNICAL_SERVICES''),
     (13, PStr ''MANAGEMENT_OF_COMPANIES_AND_ENTERPRISES''),
     (14, PStr ''ADMINISTRATIVE_AND_SUPPORT_AND_WASTE_MANAGEMENT_AND_REMEDIATION_SERVICES''),
     (15, PStr ''EDUCATIONAL_SERVICES''),
     (16, PStr ''HEALTH_CARE_AND_SOCIAL_ASSISTANCE''),
     (17, PStr ''ARTS_ENTERTAINMENT_AND_RECREATION''),
     (18, PStr ''ACCOMMODATION_AND_FOOD_SERVICES''),
     (19, PStr ''OTHER_SERVICES_EXCEPT_PUBLIC_ADMINISTRATION''),
     (20, PStr ''PUBLIC_ADMINISTRATION''),
     (22, PStr ''MILITARY''),
     (23, PNone)]"


section \<open>main.py: the record layout\<close>

text \<open>Byte ranges are 1-indexed and inclusive; the dictionary keeps the order of the source.\<close>

definition mapping :: "((nat \<times> nat) \<times> string) list" where
  "mapping =
    [((1, 18), ''reserved_positions''),
     ((19, 19), ''record_type''),
     ((20, 20), ''resident_status''),
     ((21, 62), ''reserved_positions''),
     ((63, 63), ''education''),
     ((64, 64), ''education_reporting_flag''),
     ((65, 66), ''month_of_death''),
     ((67, 68), ''reserved_positions''),
     ((69, 69), ''sex''),
     ((70, 73), ''detail_age''),
     ((74, 74), ''age_substitution_flag''),
     ((75, 76), ''age_recode_52''),
     ((77, 78), ''age_recode_27''),
     ((79, 80), ''age_recode_12''),
     ((81, 82), ''infant_age_recode_22''),
     ((83, 83), ''place_of_death_and_decedents_status''),
     ((84, 84), ''marital_status''),
     ((85, 85), ''day_of_week_of_death''),
     ((86, 101), ''reserved_positions''),
     ((102, 105), ''current_data_year''),
     ((106, 106), ''injury_at_work''),
     ((107, 107), ''manner_of_death''),
     ((108, 108), ''method_of_disposition''),
     ((109, 109), ''autopsy''),
     ((110, 143), ''reserved_positions''),
     ((144, 144), ''activity_code''),
     ((145, 145), ''place_of_injury''),
     ((146, 149), ''icd_code''),
     ((150, 152), ''cause_recode_358''),
     ((153, 153), ''reserved_positions''),
     ((154, 156), ''cause_recode_113''),
     ((157, 159), ''infant_cause_recode_130''),
     ((160, 161), ''cause_recode_39''),
     ((162, 162), ''reserved_positions''),
     ((163, 164), ''number_of_entity_axis_conditions''),
     ((165, 171), ''entity_axis_condition_1''),
     ((172, 178), ''entity_axis_condition_2''),
     ((179, 185), ''entity_axis_condition_3''),
     ((186, 192), ''entity_axis_condition_4''),
     ((193, 199), ''entity_axis_condition_5''),
     ((200, 206), ''entity_axis_condition_6''),
     ((207, 213), ''entity_axis_condition_7''),
     ((214, 220), ''entity_axis_condition_8''),
     ((221, 227), ''entity_axis_condition_9''),
     ((228, 234), ''entity_axis_condition_10''),
     ((235, 241), ''entity_axis_condition_11''),
     ((242, 248), ''entity_axis_condition_12''),
     ((249, 255), ''entity_axis_condition_13''),
     ((256, 262), ''entity_axis_condition_14''),
     ((263, 269), ''entity_axis_condition_15''),
     ((270, 276), ''entity_axis_condition_16''),
     ((277, 283), ''entity_axis_condition_17''),
     ((284, 290), ''entity_axis_condition_18''),
     ((291, 297), ''entity_axis_condition_19''),
     ((298, 304), ''entity_axis_condition_20''),
     ((305, 340), ''reserved_positions''),
     ((341, 342), ''number_of_record_axis_conditions''),
     ((343, 343), ''reserved_positions''),
     ((344, 348), ''record_axis_condition_1''),
     ((349, 353), ''record_axis_condition_2''),
     ((354, 358), ''record_axis_condition_3''),
     ((359, 363), ''record_axis_condition_4''),
     ((364, 368), ''record_axis_condition_5''),
     ((369, 373), ''record_axis_condition_6''),
     ((374, 378), ''record_axis_condition_7''),
     ((379, 383), ''record_axis_condition_8''),
     ((384, 388), ''record_axis_condition_9''),
     ((389, 393), ''record_axis_condition_10''),
     ((394, 398), ''record_axis_condition_11''),
     ((399, 403), ''record_axis_condition_12''),
     ((404, 408), ''record_axis_condition_13''),
     ((409, 413), ''record_axis_condition_14''),
     ((414, 418), ''record_axis_condition_15''),
     ((419, 423), ''record_axis_condition_16''),
     ((424, 428), ''record_axis_condition_17''),
     ((429, 433), ''record_axis_condition_18''),
     ((434, 438), ''record_axis_condition_19''),
     ((439, 443), ''record_axis_condition_20''),
     ((444, 447), ''reserved_positions''),
     ((448, 448), ''race_imputation_flag''),
     ((449, 449), ''reserved_positions''),
     ((450, 450), ''race_recode_6''),
     ((451, 483), ''reserved_positions''),
     ((484, 486), ''hispanic_origin''),
     ((487, 488), ''hispanic_origin_race_recode''),
     ((489, 490), ''race_recode_40''),
     ((491, 805), ''reserved_positions''),
     ((806, 809), ''decedents_usual_occindu_occupation_4_digit_code''),
     ((810, 811), ''decedents_usual_occindu_occupation_recode''),
     ((812, 815), ''decedents_usual_occindu_industry_4_digit_code''),
     ((816, 817), ''decedents_usual_occindu_industry_recode'')]"


section \<open>main.py: the field decoders\<close>

text \<open>
  Every decoder takes the trimmed text of its field and returns the key and the value to
  store, or an error.
\<close>

definition process_record_type :: "string \<Rightarrow> (string \<times> pyval) result" where
  "process_record_type value =
     (if value = [] then Inr (''record_type'', PNone)
      else up (try_parse_int value) (\<lambda>v.
        let mapped = dict_get record_type_mapping v
        in if truthy mapped then Inr (''record_type'', mapped)
           else Inl (Err (''Invalid value for record_type: '' @ py_str v))))"

definition process_resident_status :: "string \<Rightarrow> (string \<times> pyval) result" where
  "process_resident_status value =
     (if value = [] then Inr (''resident_status'', PNone)
      else up (try_parse_int value) (\<lambda>v.
        let mapped = dict_get resident_status_mapping v
        in if truthy mapped then Inr (''resident_status'', mapped)
           else Inl (Err (''Invalid value for resident_status: '' @ py_str v))))"

definition process_education :: "string \<Rightarrow> (string \<times> pyval) result" where
  "process_education value =
     (if value = [] then Inr (''education'', PNone)
      else up (try_parse_int value) (\<lambda>v.
        let mapped = dict_get education_mapping v
        in if truthy mapped \<or> has_key education_mapping v then Inr (''education'', mapped)
           else Inl (Err (''Invalid value for education: '' @ py_str v))))"

definition process_education_reporting_flag :: "string \<Rightarrow> (string \<times> pyval) result" where
  "process_education_reporting_flag value =
     (if value = [] then Inr (''education_reporting_flag'', PNone)
      else up (try_parse_int value) (\<lambda>v.
        let mapped = dict_get education_reporting_flag_mapping v
        in if truthy mapped then Inr (''education_reporting_flag'', mapped)
           else Inl (Err (''Invalid value for education_reporting_flag: '' @ py_str v))))"

definition process_month_of_death :: "string \<Rightarrow> (string \<times> pyval) result" where
  "process_month_of_death value =
     (if value = [] then Inr (''month_of_death'', PNone)
      else up (try_parse_int value) (\<lambda>v.
        if 1 \<le> v \<and> v \<le> 12 then Inr (''month_of_death'', PInt v)
        else Inl (Err (''Invalid value for month_of_death: '' @ py_str v))))"

definition process_sex :: "string \<Rightarrow> (string \<times> pyval) result" where
  "process_sex value =
     (if value = [] then Inr (''sex'', PNone)
      else let mapped = dict_get sex_mapping value
           in if truthy mapped then Inr (''sex'', mapped)
              else Inl (Err (''Invalid value for sex: '' @ value)))"


definition MINUTES_AS_MS :: int where "MINUTES_AS_MS = 60000"
definition HOURS_AS_MS :: int where "HOURS_AS_MS = 60 * MINUTES_AS_MS"
definition DAYS_AS_MS :: int where "DAYS_AS_MS = 24 * HOURS_AS_MS"
definition MONTHS_AS_MS :: int where "MONTHS_AS_MS = 30 * DAYS_AS_MS"
definition YEARS_AS_MS :: int where "YEARS_AS_MS = 365 * DAYS_AS_MS"

text \<open>
  The unit table of \<^verbatim>\<open>process_detail_age\<close> is a dictionary literal indexed with
  \<^verbatim>\<open>[based_on]\<close>: a missing key raises \<^verbatim>\<open>KeyError\<close>.
\<close>

definition detail_age_mult :: "(int \<times> int) list" where
  "detail_age_mult =
     [(1, YEARS_AS_MS), (2, MONTHS_AS_MS), (4, DAYS_AS_MS), (5, HOURS_AS_MS), (6, MINUTES_AS_MS)]"

definition process_detail_age :: "string \<Rightarrow> (string \<times> pyval) result" where
  "process_detail_age value =
     (if value = [] then Inr (''detail_age'', PNone)
      else up (try_parse_int (take 1 value)) (\<lambda>based_on.
           up (try_parse_int (drop 1 value)) (\<lambda>count.
        if 1 \<le> based_on \<and> based_on \<le> 6 then
          (case map_of detail_age_mult based_on of
             None \<Rightarrow> Inl (Raised (KeyError based_on))
           | Some mult \<Rightarrow> Inr (''detail_age'', PInt (count * mult)))
        else Inr (''detail_age'', PNone))))"

definition process_age_substitution_flag :: "string \<Rightarrow> (string \<times> pyval) result" where
  "process_age_substitution_flag value =
     (if value = [] then Inr (''age_substitution_flag'', PBool False)
      else up (try_parse_int value) (\<lambda>v.
        if v = 1 then Inr (''age_substitution_flag'', PBool True)
        else Inl (Err (''Invalid value for age_substitution_flag: '' @ value))))"

definition process_age_recode_52 :: "string \<Rightarrow> (string \<times> pyval) result" where
  "process_age_recode_52 value =
     (if value = [] then Inr (''age_recode_52'', PNone)
      else up (try_parse_int value) (\<lambda>v.
        if 1 \<le> v \<and> v \<le> 51 then
          (if v = 1 then Inr (''age_recode_52'', PTuple 0 HOURS_AS_MS)
           else if v = 2 then Inr (''age_recode_52'', PTuple HOURS_AS_MS (23 * HOURS_AS_MS))
           else if 3 \<le> v \<and> v \<le> 9 then
             (let i = v - 2 in Inr (''age_recode_52'', PTuple (i * DAYS_AS_MS) (i * DAYS_AS_MS)))
           else if 10 \<le> v \<and> v \<le> 11 then
             (let i = v - 10
              in Inr (''age_recode_52'',
                      PTuple ((14 + 7 * i) * DAYS_AS_MS) ((13 + 7 * (i + 1)) * DAYS_AS_MS)))
           else if 12 \<le> v \<and> v \<le> 22 then
             (let i = v - 11 in Inr (''age_recode_52'', PTuple (i * MONTHS_AS_MS) (i * MONTHS_AS_MS)))
           else if 23 \<le> v \<and> v \<le> 26 then
             (let i = v - 22 in Inr (''age_recode_52'', PTuple (i * YEARS_AS_MS) (i * YEARS_AS_MS)))
           else if 27 \<le> v \<and> v \<le> 50 then
             (let i = v - 27
              in Inr (''age_recode_52'',
                      PTuple ((5 + 5 * i) * YEARS_AS_MS) ((4 + 5 * (i + 1)) * YEARS_AS_MS)))
           else if v = 51 then
             Inr (''age_recode_52'', PTuple (125 * YEARS_AS_MS) (999 * YEARS_AS_MS))
           else Inl (Err (''Invalid value for age_recode_52: '' @ py_str v)))
        else if v = 52 then Inr (''age_recode_52'', PNone)
        else Inl (Err (''Invalid value for age_recode_52: '' @ py_str v))))"

definition process_age_recode_27 :: "string \<Rightarrow> (string \<times> pyval) result" where
  "process_age_recode_27 value =
     (if value = [] then Inr (''age_recode_27'', PNone)
      else up (try_parse_int value) (\<lambda>v.
        if 1 \<le> v \<and> v \<le> 26 then
          (if v = 1 then Inr (''age_recode_27'', PTuple 0 (1 * MONTHS_AS_MS))
           else if v = 2 then
             Inr (''age_recode_27'', PTuple (1 * MONTHS_AS_MS) (11 * MONTHS_AS_MS))
           else if 3 \<le> v \<and> v \<le> 6 then
             (let i = v - 2 in Inr (''age_recode_27'', PTuple (i * YEARS_AS_MS) (i * YEARS_AS_MS)))
           else if 7 \<le> v \<and> v \<le> 25 then
             (let i = v - 7
              in Inr (''age_recode_27'',
                      PTuple ((5 + 5 * i) * YEARS_AS_MS) ((4 + 5 * (i + 1)) * YEARS_AS_MS)))
           else if v = 26 then
             Inr (''age_recode_27'', PTuple (100 * YEARS_AS_MS) (999 * YEARS_AS_MS))
           else Inl (Err (''Invalid value for age_recode_27: '' @ py_str v)))
        else if v = 27 then Inr (''age_recode_27'', PNone)
        else Inl (Err (''Invalid value for age_recode_27: '' @ py_str v))))"

definition process_age_recode_12 :: "string \<Rightarrow> (string \<times> pyval) result" where
  "process_age_recode_12 value =
     (if value = [] then Inr (''age_recode_12'', PNone)
      else up (try_parse_int value) (\<lambda>v.
        if 1 \<le> v \<and> v \<le> 11 then
          (if v = 1 then Inr (''age_recode_12'', PTuple 0 (11 * MONTHS_AS_MS))
           else if v = 2 then
             Inr (''age_recode_12'', PTuple (1 * YEARS_AS_MS) (4 * YEARS_AS_MS))
           else if 3 \<le> v \<and> v \<le> 10 then
             (let i = v - 3
              in Inr (''age_recode_12'',
                      PTuple ((5 + 10 * i) * YEARS_AS_MS) ((4 + 10 * (i + 1)) * YEARS_AS_MS)))
           else if v = 11 then
             Inr (''age_recode_12'', PTuple (85 * YEARS_AS_MS) (999 * YEARS_AS_MS))
           else Inl (Err (''Invalid value for age_recode_12: '' @ py_str v)))
        else if v = 12 then Inr (''age_recode_12'', PNone)
        else Inl (Err (''Invalid value for age_recode_12: '' @ py_str v))))"

definition process_infant_age_recode_22 :: "string \<Rightarrow> (string \<times> pyval) result" where
  "process_infant_age_recode_22 value =
     (if value = [] then Inr (''infant_age_recode_22'', PNone)
      else up (try_parse_int value) (\<lambda>v.
        if 1 \<le> v \<and> v \<le> 22 then
          (if v = 1 then Inr (''infant_age_recode_22'', PTuple 0 (59 * MINUTES_AS_MS))
           else if v = 2 then
             Inr (''infant_age_recode_22'', PTuple (1 * HOURS_AS_MS) (23 * HOURS_AS_MS))
           else if 3 \<le> v \<and> v \<le> 8 then
             (let i = v - 2
              in Inr (''infant_age_recode_22'', PTuple (i * DAYS_AS_MS) (i * DAYS_AS_MS)))
           else if 9 \<le> v \<and> v \<le> 11 then
             (let i = v - 9
              in Inr (''infant_age_recode_22'',
                      PTuple ((7 + 7 * i) * DAYS_AS_MS) ((6 + 7 * (i + 1)) * DAYS_AS_MS)))
           else if 12 \<le> v \<and> v \<le> 22 then
             (let i = v - 11
              in Inr (''infant_age_recode_22'', PTuple (i * MONTHS_AS_MS) (i * MONTHS_AS_MS)))
           else Inl (Err (''Invalid value for infant_age_recode_22: '' @ py_str v)))
        else Inl (Err (''Invalid value for infant_age_recode_22: '' @ py_str v))))"

definition process_place_of_death :: "string \<Rightarrow> (string \<times> pyval) result" where
  "process_place_of_death value =
     (if value = [] then Inr (''place_of_death'', PNone)
      else up (try_parse_int value) (\<lambda>v.
        let mapped = dict_get place_of_death_mapping v
        in if truthy mapped \<or> has_key place_of_death_mapping v then Inr (''place_of_death'', mapped)
           else Inl (Err (''Invalid value for place_of_death_and_decedents_status: '' @ value))))"

definition process_marital_status :: "string \<Rightarrow> (string \<times> pyval) result" where
  "process_marital_status value =
     (if value = [] then Inr (''marital_status'', PNone)
      else let mapped = dict_get marital_status_mapping value
           in if truthy mapped \<or> has_key marital_status_mapping value then Inr (''marital_status'', mapped)
              else Inl (Err (''Invalid value for marital_status: '' @ value)))"

definition process_day_of_week_of_death :: "string \<Rightarrow> (string \<times> pyval) result" where
  "process_day_of_week_of_death value =
     (if value = [] then Inr (''day_of_week_of_death'', PNone)
      else up (try_parse_int value) (\<lambda>v.
        let mapped = dict_get day_of_week_of_death_mapping v
        in if truthy mapped \<or> has_key day_of_week_of_death_mapping v then Inr (''day_of_week_of_death'', mapped)
           else Inl (Err (''Invalid value for day_of_week_of_death: '' @ value))))"

definition process_injury_at_work :: "string \<Rightarrow> (string \<times> pyval) result" where
  "process_injury_at_work value =
     (if value = [] then Inr (''injury_at_work'', PNone)
      else let mapped = dict_get injury_at_work_mapping value
           in if truthy mapped \<or> has_key injury_at_work_mapping value then Inr (''injury_at_work'', mapped)
              else Inl (Err (''Invalid value for injury_at_work: '' @ value)))"

definition process_manner_of_death :: "string \<Rightarrow> (string \<times> pyval) result" where
  "process_manner_of_death value =
     (if value = [] then Inr (''manner_of_death'', PNone)
      else up (try_parse_int value) (\<lambda>v.
        let mapped = dict_get manner_of_death_mapping v
        in if truthy mapped then Inr (''manner_of_death'', mapped)
           else Inl (Err (''Invalid value for manner_of_death: '' @ value))))"

definition process_method_of_disposition :: "string \<Rightarrow> (string \<times> pyval) result" where
  "process_method_of_disposition value =
     (if value = [] then Inr (''method_of_disposition'', PNone)
      else let mapped = dict_get method_of_disposition_mapping value
           in if truthy mapped \<or> has_key method_of_disposition_mapping value then Inr (''method_of_disposition'', mapped)
              else Inl (Err (''Invalid value for method_of_disposition: '' @ value)))"

definition process_autopsy :: "string \<Rightarrow> (string \<times> pyval) result" where
  "process_autopsy value =
     (if value = [] then Inr (''autopsy'', PNone)
      else let mapped = dict_get autopsy_mapping value
           in if truthy mapped \<or> has_key autopsy_mapping value then Inr (''autopsy'', mapped)
              else Inl (Err (''Invalid value for autopsy: '' @ value)))"

definition process_activity_code :: "string \<Rightarrow> (string \<times> pyval) result" where
  "process_activity_code value =
     (if value = [] then Inr (''activity_code'', PNone)
      else up (try_parse_int value) (\<lambda>v.
        let mapped = dict_get activity_code_mapping v
        in if truthy mapped \<or> has_key activity_code_mapping v then Inr (''activity_code'', mapped)
           else Inl (Err (''Invalid value for activity_code: '' @ value))))"

definition process_place_of_injury :: "string \<Rightarrow> (string \<times> pyval) result" where
  "process_place_of_injury value =
     (if value = [] then Inr (''place_of_injury'', PNone)
      else up (try_parse_int value) (\<lambda>v.
        let mapped = dict_get place_of_injury_mapping v
        in if truthy mapped \<or> has_key place_of_injury_mapping v then Inr (''place_of_injury'', mapped)
           else Inl (Err (''Invalid value for place_of_injury: '' @ value))))"

definition process_icd_code :: "string \<Rightarrow> (string \<times> pyval) result" where
  "process_icd_code value =
     (if value = [] then Inr (''icd_code'', PNone)
      else Inr (''icd_code'', PStr value))"

definition process_cause_recode_358 :: "string \<Rightarrow> (string \<times> pyval) result" where
  "process_cause_recode_358 value =
     (if value = [] then Inr (''cause_recode_358'', PNone)
      else Inr (''cause_recode_358'', PStr value))"

definition process_cause_recode_113 :: "string \<Rightarrow> (string \<times> pyval) result" where
  "process_cause_recode_113 value =
     (if value = [] then Inr (''cause_recode_113'', PNone)
      else Inr (''cause_recode_113'', PStr value))"

definition process_infant_cause_recode_130 :: "string \<Rightarrow> (string \<times> pyval) result" where
  "process_infant_cause_recode_130 value =
     (if value = [] then Inr (''infant_cause_recode_130'', PNone)
      else Inr (''infant_cause_recode_130'', PStr value))"

definition process_cause_recode_39 :: "string \<Rightarrow> (string \<times> pyval) result" where
  "process_cause_recode_39 value =
     (if value = [] then Inr (''cause_recode_39'', PNone)
      else up (try_parse_int value) (\<lambda>v.
        if 1 \<le> v \<and> v \<le> 42 then Inr (''cause_recode_39'', PInt v)
        else Inr (''cause_recode_39'', PNone)))"

definition process_number_of_entity_axis_conditions :: "string \<Rightarrow> (string \<times> pyval) result" where
  "process_number_of_entity_axis_conditions value =
     (if value = [] then Inr (''number_of_entity_axis_conditions'', PNone)
      else up (try_parse_int value) (\<lambda>v.
        if 0 \<le> v \<and> v \<le> 20 then Inr (''number_of_entity_axis_conditions'', PInt v)
        else Inl (Err (''Invalid value for number_of_entity_axis_conditions: '' @ py_str v))))"


text \<open>
  An entity-axis condition reads \<^verbatim>\<open>value[0]\<close>, \<^verbatim>\<open>value[1]\<close> and
  \<^verbatim>\<open>value[2:]\<close>. The text is not empty here, so \<^verbatim>\<open>value[0]\<close> exists;
  \<^verbatim>\<open>value[1]\<close> raises \<^verbatim>\<open>IndexError\<close> on a one-character text.
\<close>

definition process_entity_axis_condition :: "int \<Rightarrow> string \<Rightarrow> (string \<times> pyval) result" where
  "process_entity_axis_condition n value =
     (if value = [] then Inr (''entity_axis_condition_'' @ py_str n, PNone)
      else up (try_parse_int (take 1 value)) (\<lambda>part_line.
        let part = (if part_line \<le> 5 then ''PART_I'' else ''PART_II'')
        in (case drop 1 value of
              [] \<Rightarrow> Inl (Raised IndexError)
            | c # cs \<Rightarrow>
                up (try_parse_int [c]) (\<lambda>certificate_line.
                  let condition_code = drop 2 value
                  in Inr (''entity_axis_condition_'' @ py_str n,
                          PDict [(''certificate_part'', PStr part),
                                 (''certificate_line'', PInt certificate_line),
                                 (''condition'', PStr condition_code)])))))"

definition process_number_of_record_axis_conditions :: "string \<Rightarrow> (string \<times> pyval) result" where
  "process_number_of_record_axis_conditions value =
     (if value = [] then Inr (''number_of_record_axis_conditions'', PNone)
      else up (try_parse_int value) (\<lambda>v.
        if 0 \<le> v \<and> v \<le> 20 then Inr (''number_of_record_axis_conditions'', PInt v)
        else Inl (Err (''Invalid value for number_of_record_axis_conditions: '' @ py_str v))))"


definition process_record_axis_condition :: "int \<Rightarrow> string \<Rightarrow> (string \<times> pyval) result" where
  "process_record_axis_condition n value =
     (if value = [] then Inr (''record_axis_condition_'' @ py_str n, PNone)
      else Inr (''record_axis_condition_'' @ py_str n, PStr value))"

definition process_race_imputation_flag :: "string \<Rightarrow> (string \<times> pyval) result" where
  "process_race_imputation_flag value =
     (if value = [] then Inr (''race_imputation_flag'', PBool False)
      else up (try_parse_int value) (\<lambda>v.
        if v = 1 \<or> v = 2 then Inr (''race_imputation_flag'', PBool True)
        else Inl (Err (''Invalid value for race_imputation_flag: '' @ py_str v))))"

definition process_race_recode_6 :: "string \<Rightarrow> (string \<times> pyval) result" where
  "process_race_recode_6 value =
     (if value = [] then Inr (''race_recode_6'', PNone)
      else up (try_parse_int value) (\<lambda>v.
        let mapped = dict_get race_recode_6_mapping v
        in if truthy mapped then Inr (''race_recode_6'', mapped)
           else Inl (Err (''Invalid value for race_recode_6: '' @ py_str v))))"


definition process_hispanic_origin :: "string \<Rightarrow> (string \<times> pyval) result" where
  "process_hispanic_origin value =
     (if value = [] then Inr (''hispanic_origin'', PNone)
      else up (try_parse_int value) (\<lambda>v.
        let mapped = get_in_range hispanic_origin_mapping v
        in if truthy mapped \<or> range_keyed_dict_has_key hispanic_origin_mapping v
           then Inr (''hispanic_origin'', mapped)
           else Inl (Err (''Invalid value for hispanic_origin: '' @ py_str v))))"

definition process_hispanic_origin_race_recode :: "string \<Rightarrow> (string \<times> pyval) result" where
  "process_hispanic_origin_race_recode value =
     (if value = [] then Inr (''hispanic_origin_race_recode'', PNone)
      else up (try_parse_int value) (\<lambda>v.
        let mapped = dict_get hispanic_origin_race_recode_mapping v
        in if truthy mapped \<or> has_key hispanic_origin_race_recode_mapping v then Inr (''hispanic_origin_race_recode'', mapped)
           else Inl (Err (''Invalid value for hispanic_origin_race_recode: '' @ py_str v))))"


text \<open>
  The composite branch of \<^verbatim>\<open>process_race_recode_40\<close> splits the label at the
  underscores and then runs \<^verbatim>\<open>for part in parts: if part == "ASIAN": part = ...\<close>.
  The loop assigns to its own variable \<^verbatim>\<open>part\<close>; the list \<^verbatim>\<open>parts\<close> is what
  the function returns. The state of the loop is the pair of both.
\<close>

definition rename_step :: "string \<Rightarrow> string list \<times> string \<Rightarrow> string list \<times> string" where
  "rename_step x st =
     (let parts = fst st; part = x
      in if part = ''ASIAN'' then (parts, ''OTHER_ASIAN'')
         else if part = ''NHOPI'' then (parts, ''OTHER_PACIFIC_ISLANDER'')
         else (parts, part))"

definition rename_loop :: "string list \<Rightarrow> string list" where
  "rename_loop parts = fst (fold rename_step parts (parts, []))"

definition process_race_recode_40 :: "string \<Rightarrow> (string \<times> pyval) result" where
  "process_race_recode_40 value =
     (if value = [] then Inr (''race_recode_40'', PNone)
      else up (try_parse_int value) (\<lambda>v.
        let mapped = dict_get race_recode_40_mapping v
        in if truthy mapped then
             (if v \<le> 14 then Inr (''race_recode_40'', PList [mapped])
              else (case mapped of
                      PStr label \<Rightarrow>
                        Inr (''race_recode_40'', PList (map PStr (rename_loop (split CHR ''_'' label))))
                    | _ \<Rightarrow> Inl (Raised AttributeError)))
           else Inl (Err (''Invalid value for race_recode_40: '' @ py_str v))))"

definition process_decedent_occupation_code :: "string \<Rightarrow> (string \<times> pyval) result" where
  "process_decedent_occupation_code value =
     (if value = [] then Inr (''decedent_occupation_code'', PNone)
      else Inr (''decedent_occupation_code'', PStr value))"

definition process_decedent_occupation_recode :: "string \<Rightarrow> (string \<times> pyval) result" where
  "process_decedent_occupation_recode value =
     (if value = [] then Inr (''decedent_occupation_recode'', PNone)
      else up (try_parse_int value) (\<lambda>v.
        let mapped = dict_get decedent_occupation_recode_mapping v
        in if truthy mapped \<or> has_key decedent_occupation_recode_mapping v then Inr (''decedent_occupation_recode'', mapped)
           else Inl (Err (''Invalid value for decedent_occupation_recode: '' @ py_str v))))"

definition process_decedent_industry_code :: "string \<Rightarrow> (string \<times> pyval) result" where
  "process_decedent_industry_code value =
     (if value = [] then Inr (''decedent_industry_code'', PNone)
      else Inr (''decedent_industry_code'', PStr value))"

definition process_decedent_industry_recode :: "string \<Rightarrow> (string \<times> pyval) result" where
  "process_decedent_industry_recode value =
     (if value = [] then Inr (''decedent_industry_recode'', PNone)
      else up (try_parse_int value) (\<lambda>v.
        let mapped = dict_get decedent_industry_recode_mapping v
        in if truthy mapped \<or> has_key decedent_industry_recode_mapping v then Inr (''decedent_industry_recode'', mapped)
           else Inl (Err (''Invalid value for decedent_industry_recode: '' @ py_str v))))"



section \<open>main.py: decoding one line\<close>

text \<open>
  \<^verbatim>\<open>k, v = decoder(value).up(); d[k] = v\<close>: the pair is stored in the ordered
  dictionary, a new key at the end. \<^verbatim>\<open>int(field.split("_")[-1])\<close> reads the slot
  number off the field name.
\<close>

definition store :: "pydict \<Rightarrow> string \<times> pyval \<Rightarrow> pydict result" where
  "store d kv = Inr (AList.update (fst kv) (snd kv) d)"

definition field_number :: "string \<Rightarrow> int result" where
  "field_number field =
     (case py_int (last (split CHR ''_'' field)) of
        None \<Rightarrow> Inl (Raised (ValueError (last (split CHR ''_'' field))))
      | Some n \<Rightarrow> Inr n)"

text \<open>
  The body of the loop of \<^verbatim>\<open>process_line\<close> for one entry of the layout: the chain
  of comparisons on the field name, in the order of the source. The education reporting
  flag is decoded but not stored; a name with no branch (the data year) is skipped.
\<close>

definition process_field :: "string \<Rightarrow> string \<Rightarrow> pydict \<Rightarrow> pydict result" where
  "process_field field value d =
     (if field = ''reserved_positions'' then Inr d
      else if field = ''record_type'' then
        up (process_record_type value) (store d)
      else if field = ''resident_status'' then
        up (process_resident_status value) (store d)
      else if field = ''education'' then
        up (process_education value) (store d)
      else if field = ''education_reporting_flag'' then
        up (process_education_reporting_flag value) (\<lambda>kv. Inr d)
      else if field = ''month_of_death'' then
        up (process_month_of_death value) (store d)
      else if field = ''sex'' then
        up (process_sex value) (store d)
      else if field = ''detail_age'' then
        up (process_detail_age value) (store d)
      else if field = ''age_substitution_flag'' then
        up (process_age_substitution_flag value) (store d)
      else if field = ''age_recode_52'' then
        up (process_age_recode_52 value) (store d)
      else if field = ''age_recode_27'' then
        up (process_age_recode_27 value) (store d)
      else if field = ''age_recode_12'' then
        up (process_age_recode_12 value) (store d)
      else if field = ''infant_age_recode_22'' then
        up (process_infant_age_recode_22 value) (store d)
      else if field = ''place_of_death_and_decedents_status'' then
        up (process_place_of_death value) (store d)
      else if field = ''marital_status'' then
        up (process_marital_status value) (store d)
      else if field = ''day_of_week_of_death'' then
        up (process_day_of_week_of_death value) (store d)
      else if field = ''injury_at_work'' then
        up (process_injury_at_work value) (store d)
      else if field = ''manner_of_death'' then
        up (process_manner_of_death value) (store d)
      else if field = ''method_of_disposition'' then
        up (process_method_of_disposition value) (store d)
      else if field = ''autopsy'' then
        up (process_autopsy value) (store d)
      else if field = ''activity_code'' then
        up (process_activity_code value) (store d)
      else if field = ''place_of_injury'' then
        up (process_place_of_injury value) (store d)
      else if field = ''icd_code'' then
        up (process_icd_code value) (store d)
      else if field = ''cause_recode_358'' then
        up (process_cause_recode_358 value) (store d)
      else if field = ''cause_recode_113'' then
        up (process_cause_recode_113 value) (store d)
      else if field = ''infant_cause_recode_130'' then
        up (process_infant_cause_recode_130 value) (store d)
      else if field = ''cause_recode_39'' then
        up (process_cause_recode_39 value) (store d)
      else if field = ''number_of_entity_axis_conditions'' then
        up (process_number_of_entity_axis_conditions value) (store d)
      else if startswith field ''entity_axis_condition_'' then
        up (field_number field) (\<lambda>n. up (process_entity_axis_condition n value) (store d))
      else if field = ''number_of_record_axis_conditions'' then
        up (process_number_of_record_axis_conditions value) (store d)
      else if startswith field ''record_axis_condition_'' then
        up (field_number field) (\<lambda>n. up (process_record_axis_condition n value) (store d))
      else if field = ''race_imputation_flag'' then
        up (process_race_imputation_flag value) (store d)
      else if field = ''race_recode_6'' then
        up (process_race_recode_6 value) (store d)
      else if field = ''hispanic_origin'' then
        up (process_hispanic_origin value) (store d)
      else if field = ''hispanic_origin_race_recode'' then
        up (process_hispanic_origin_race_recode value) (store d)
      else if field = ''race_recode_40'' then
        up (process_race_recode_40 value) (store d)
      else if field = ''decedents_usual_occindu_occupation_4_digit_code'' then
        up (process_decedent_occupation_code value) (store d)
      else if field = ''decedents_usual_occindu_occupation_recode'' then
        up (process_decedent_occupation_recode value) (store d)
      else if field = ''decedents_usual_occindu_industry_4_digit_code'' then
        up (process_decedent_industry_code value) (store d)
      else if field = ''decedents_usual_occindu_industry_recode'' then
        up (process_decedent_industry_recode value) (store d)
      else Inr d)"

fun process_fields :: "string \<Rightarrow> ((nat \<times> nat) \<times> string) list \<Rightarrow> pydict \<Rightarrow> pydict result" where
  "process_fields line [] d = Inr d"
| "process_fields line (((start, end), field) # rest) d =
     up (process_field field (strip (slice line (start - 1) end)) d) (process_fields line rest)"

definition process_line :: "string \<Rightarrow> pydict result" where
  "process_line line = process_fields line mapping []"

section \<open>main.py: assembling rows and batches\<close>

text \<open>
  The body of the loop of \<^verbatim>\<open>process_lines_batch\<close> after the line is decoded. The
  age is chosen with Python's \<^verbatim>\<open>or\<close>, which passes over every falsy value.
\<close>

definition final_age :: "pydict \<Rightarrow> pyval" where
  "final_age processed_line =
     py_or (py_or (py_or (py_or (py_or
       (dict_get processed_line ''detail_age'')
       (dict_get processed_line ''infant_age_recode_22''))
       (dict_get processed_line ''age_recode_52''))
       (dict_get processed_line ''age_recode_27''))
       (dict_get processed_line ''age_recode_12''))
       PNone"

fun is_int_tuple :: "pyval \<Rightarrow> bool" where
  "is_int_tuple (PTuple lo hi) = True"
| "is_int_tuple v = False"

fun isinstance_int :: "pyval \<Rightarrow> bool" where
  "isinstance_int (PInt i) = True"
| "isinstance_int (PBool b) = True"
| "isinstance_int v = False"

definition age_bounds :: "pyval \<Rightarrow> pyval \<times> pyval" where
  "age_bounds age =
     (if truthy age \<and> is_int_tuple age then
        (case age of PTuple lo hi \<Rightarrow> (PInt lo, PInt hi) | _ \<Rightarrow> (PNone, PNone))
      else if truthy age \<and> isinstance_int age then (age, age)
      else (PNone, PNone))"

text \<open>\<^verbatim>\<open>for i in range(1, 21): c = d.get(f"<name>_{i}"); if c: out.append(c)\<close>\<close>

definition collect_conditions :: "string \<Rightarrow> pydict \<Rightarrow> pyval list" where
  "collect_conditions name processed_line =
     fold (\<lambda>i out. let c = dict_get processed_line (name @ py_str (int i))
                    in if truthy c then out @ [c] else out)
          [1 ..< 21] []"

definition remove_condition_slots :: "pydict \<Rightarrow> pydict" where
  "remove_condition_slots processed_line =
     fold (\<lambda>k d. if startswith k ''entity_axis_condition_'' \<or> startswith k ''record_axis_condition_''
                  then maybe_del d k else d)
          (map fst processed_line) processed_line"

definition remove_unneeded :: "pydict \<Rightarrow> pydict" where
  "remove_unneeded processed_line =
     fold (\<lambda>k d. maybe_del d k)
       [''detail_age'', ''infant_age_recode_22'', ''age_recode_52'', ''age_recode_27'',
        ''age_recode_12'', ''education_reporting_flag'', ''age_substitution_flag'',
        ''number_of_entity_axis_conditions'', ''number_of_record_axis_conditions'',
        ''race_imputation_flag'']
       (remove_condition_slots processed_line)"

definition assemble_row :: "pydict \<Rightarrow> pydict" where
  "assemble_row processed_line =
     (let bounds = age_bounds (final_age processed_line);
          entity_axis_conditions = collect_conditions ''entity_axis_condition_'' processed_line;
          record_axis_conditions = collect_conditions ''record_axis_condition_'' processed_line
      in AList.update ''record_axis_conditions'' (PList record_axis_conditions)
        (AList.update ''entity_axis_conditions'' (PList entity_axis_conditions)
        (AList.update ''age_upper_bound'' (snd bounds)
        (AList.update ''age_lower_bound'' (fst bounds)
          (remove_unneeded processed_line)))))"


definition row_of_line :: "string \<Rightarrow> pydict result" where
  "row_of_line line = up (process_line line) (\<lambda>processed_line. Inr (assemble_row processed_line))"



section \<open>main.py: the batch pipeline\<close>

text \<open>
  \<^verbatim>\<open>MAX_PARALLEL_PROCESSING = max((os.cpu_count() or 0) - 2, 1)\<close>, where
  \<^verbatim>\<open>os.cpu_count()\<close> is a positive integer or \<^verbatim>\<open>None\<close>.
\<close>

definition MAX_PARALLEL_PROCESSING :: "int option \<Rightarrow> int" where
  "MAX_PARALLEL_PROCESSING cpu_count =
     max ((case cpu_count of None \<Rightarrow> 0 | Some c \<Rightarrow> if c \<noteq> 0 then c else 0) - 2) 1"

text \<open>\<^verbatim>\<open>range(0, n, step)\<close> for a positive step.\<close>

definition py_range :: "nat \<Rightarrow> nat \<Rightarrow> nat list" where
  "py_range n step = map (\<lambda>k. k * step) [0 ..< (n + step - 1) div step]"

definition lines_per_process :: "nat \<Rightarrow> 'a list \<Rightarrow> nat" where
  "lines_per_process W lines = max 1 (length lines div W)"

definition batches :: "nat \<Rightarrow> 'a list \<Rightarrow> 'a list list" where
  "batches W lines =
     map (\<lambda>i. slice lines i (i + lines_per_process W lines))
         (py_range (length lines) (lines_per_process W lines))"






section \<open>Notions used to state the properties\<close>

text \<open>
  The value of one column in the row assembled from a line; the trimmed text that
  \<^verbatim>\<open>process_line\<close> hands to the decoder of a named field of the layout; and whether
  an error message contains a field name (Python's \<^verbatim>\<open>name in msg\<close>).
\<close>

definition column :: "string \<Rightarrow> string \<Rightarrow> pyval result" where
  "column name line = up (row_of_line line) (\<lambda>row. Inr (dict_get row name))"

definition field_text :: "string \<Rightarrow> string \<Rightarrow> string" where
  "field_text line name =
     (case find (\<lambda>e. snd e = name) mapping of
        None \<Rightarrow> []
      | Some ((start, end), field) \<Rightarrow> strip (slice line (start - 1) end))"



section \<open>Auxiliary facts\<close>

subsection \<open>Results and dictionaries\<close>

lemma up_simps: "up (Inl e) k = Inl e" "up (Inr v) k = k v"
  by (simp_all add: up_def)

lemma up_eq_Inr: "up r k = Inr y \<longleftrightarrow> (\<exists>v. r = Inr v \<and> k v = Inr y)"
  by (cases r) (simp_all add: up_def)

lemma digit_limit: "max_str_digits < length (filter is_digit s) \<Longrightarrow> parse_unsigned s = None"
  by (cases s) (auto simp: parse_unsigned_def)

lemma dict_get_update:
  "dict_get (AList.update k v d) k' = (if k' = k then v else dict_get d k')"
  by (simp add: dict_get_def update_conv')

lemma dict_get_Nil: "dict_get [] k = PNone"
  by (simp add: dict_get_def)

subsection \<open>Field texts of padded lines\<close>





lemma field_number_slots:
  "field_number ''entity_axis_condition_1'' = Inr 1
   \<and> field_number ''entity_axis_condition_2'' = Inr 2
   \<and> field_number ''entity_axis_condition_3'' = Inr 3
   \<and> field_number ''entity_axis_condition_4'' = Inr 4
   \<and> field_number ''entity_axis_condition_5'' = Inr 5
   \<and> field_number ''entity_axis_condition_6'' = Inr 6
   \<and> field_number ''entity_axis_condition_7'' = Inr 7
   \<and> field_number ''entity_axis_condition_8'' = Inr 8
   \<and> field_number ''entity_axis_condition_9'' = Inr 9
   \<and> field_number ''entity_axis_condition_10'' = Inr 10
   \<and> field_number ''entity_axis_condition_11'' = Inr 11
   \<and> field_number ''entity_axis_condition_12'' = Inr 12
   \<and> field_number ''entity_axis_condition_13'' = Inr 13
   \<and> field_number ''entity_axis_condition_14'' = Inr 14
   \<and> field_number ''entity_axis_condition_15'' = Inr 15
   \<and> field_number ''entity_axis_condition_16'' = Inr 16
   \<and> field_number ''entity_axis_condition_17'' = Inr 17
   \<and> field_number ''entity_axis_condition_18'' = Inr 18
   \<and> field_number ''entity_axis_condition_19'' = Inr 19
   \<and> field_number ''entity_axis_condition_20'' = Inr 20
   \<and> field_number ''record_axis_condition_1'' = Inr 1
   \<and> field_number ''record_axis_condition_2'' = Inr 2
   \<and> field_number ''record_axis_condition_3'' = Inr 3
   \<and> field_number ''record_axis_condition_4'' = Inr 4
   \<and> field_number ''record_axis_condition_5'' = Inr 5
   \<and> field_number ''record_axis_condition_6'' = Inr 6
   \<and> field_number ''record_axis_condition_7'' = Inr 7
   \<and> field_number ''record_axis_condition_8'' = Inr 8
   \<and> field_number ''record_axis_condition_9'' = Inr 9
   \<and> field_number ''record_axis_condition_10'' = Inr 10
   \<and> field_number ''record_axis_condition_11'' = Inr 11
   \<and> field_number ''record_axis_condition_12'' = Inr 12
   \<and> field_number ''record_axis_condition_13'' = Inr 13
   \<and> field_number ''record_axis_condition_14'' = Inr 14
   \<and> field_number ''record_axis_condition_15'' = Inr 15
   \<and> field_number ''record_axis_condition_16'' = Inr 16
   \<and> field_number ''record_axis_condition_17'' = Inr 17
   \<and> field_number ''record_axis_condition_18'' = Inr 18
   \<and> field_number ''record_axis_condition_19'' = Inr 19
   \<and> field_number ''record_axis_condition_20'' = Inr 20"
  by code_simp

lemma decoders_blank:
  "process_record_type [] = Inr (''record_type'', PNone)
   \<and> process_resident_status [] = Inr (''resident_status'', PNone)
   \<and> process_education [] = Inr (''education'', PNone)
   \<and> process_education_reporting_flag [] = Inr (''education_reporting_flag'', PNone)
   \<and> process_month_of_death [] = Inr (''month_of_death'', PNone)
   \<and> process_sex [] = Inr (''sex'', PNone)
   \<and> process_detail_age [] = Inr (''detail_age'', PNone)
   \<and> process_age_recode_52 [] = Inr (''age_recode_52'', PNone)
   \<and> process_age_recode_27 [] = Inr (''age_recode_27'', PNone)
   \<and> process_age_recode_12 [] = Inr (''age_recode_12'', PNone)
   \<and> process_infant_age_recode_22 [] = Inr (''infant_age_recode_22'', PNone)
   \<and> process_place_of_death [] = Inr (''place_of_death'', PNone)
   \<and> process_marital_status [] = Inr (''marital_status'', PNone)
   \<and> process_day_of_week_of_death [] = Inr (''day_of_week_of_death'', PNone)
   \<and> process_injury_at_work [] = Inr (''injury_at_work'', PNone)
   \<and> process_manner_of_death [] = Inr (''manner_of_death'', PNone)
   \<and> process_method_of_disposition [] = Inr (''method_of_disposition'', PNone)
   \<and> process_autopsy [] = Inr (''autopsy'', PNone)
   \<and> process_activity_code [] = Inr (''activity_code'', PNone)
   \<and> process_place_of_injury [] = Inr (''place_of_injury'', PNone)
   \<and> process_icd_code [] = Inr (''icd_code'', PNone)
   \<and> process_cause_recode_358 [] = Inr (''cause_recode_358'', PNone)
   \<and> process_cause_recode_113 [] = Inr (''cause_recode_113'', PNone)
   \<and> process_infant_cause_recode_130 [] = Inr (''infant_cause_recode_130'', PNone)
   \<and> process_cause_recode_39 [] = Inr (''cause_recode_39'', PNone)
   \<and> process_number_of_entity_axis_conditions [] = Inr (''number_of_entity_axis_conditions'', PNone)
   \<and> process_number_of_record_axis_conditions [] = Inr (''number_of_record_axis_conditions'', PNone)
   \<and> process_race_recode_6 [] = Inr (''race_recode_6'', PNone)
   \<and> process_hispanic_origin [] = Inr (''hispanic_origin'', PNone)
   \<and> process_hispanic_origin_race_recode [] = Inr (''hispanic_origin_race_recode'', PNone)
   \<and> process_race_recode_40 [] = Inr (''race_recode_40'', PNone)
   \<and> process_decedent_occupation_code [] = Inr (''decedent_occupation_code'', PNone)
   \<and> process_decedent_occupation_recode [] = Inr (''decedent_occupation_recode'', PNone)
   \<and> process_decedent_industry_code [] = Inr (''decedent_industry_code'', PNone)
   \<and> process_decedent_industry_recode [] = Inr (''decedent_industry_recode'', PNone)
   \<and> process_entity_axis_condition n [] = Inr (''entity_axis_condition_'' @ py_str n, PNone)
   \<and> process_record_axis_condition n [] = Inr (''record_axis_condition_'' @ py_str n, PNone)
   \<and> process_age_substitution_flag [] = Inr (''age_substitution_flag'', PBool False)
   \<and> process_race_imputation_flag [] = Inr (''race_imputation_flag'', PBool False)"
  by (simp add:
    process_record_type_def process_resident_status_def process_education_def
    process_education_reporting_flag_def process_month_of_death_def process_sex_def
    process_detail_age_def process_age_recode_52_def process_age_recode_27_def
    process_age_recode_12_def process_infant_age_recode_22_def
    process_place_of_death_def process_marital_status_def
    process_day_of_week_of_death_def process_injury_at_work_def
    process_manner_of_death_def process_method_of_disposition_def process_autopsy_def
    process_activity_code_def process_place_of_injury_def process_icd_code_def
    process_cause_recode_358_def process_cause_recode_113_def
    process_infant_cause_recode_130_def process_cause_recode_39_def
    process_number_of_entity_axis_conditions_def
    process_number_of_record_axis_conditions_def process_race_recode_6_def
    process_hispanic_origin_def process_hispanic_origin_race_recode_def
    process_race_recode_40_def process_decedent_occupation_code_def
    process_decedent_occupation_recode_def process_decedent_industry_code_def
    process_decedent_industry_recode_def process_entity_axis_condition_def
    process_record_axis_condition_def process_age_substitution_flag_def
    process_race_imputation_flag_def)

lemma py_str_slots:
  "py_str 1 = ''1''
   \<and> py_str 2 = ''2''
   \<and> py_str 3 = ''3''
   \<and> py_str 4 = ''4''
   \<and> py_str 5 = ''5''
   \<and> py_str 6 = ''6''
   \<and> py_str 7 = ''7''
   \<and> py_str 8 = ''8''
   \<and> py_str 9 = ''9''
   \<and> py_str 10 = ''10''
   \<and> py_str 11 = ''11''
   \<and> py_str 12 = ''12''
   \<and> py_str 13 = ''13''
   \<and> py_str 14 = ''14''
   \<and> py_str 15 = ''15''
   \<and> py_str 16 = ''16''
   \<and> py_str 17 = ''17''
   \<and> py_str 18 = ''18''
   \<and> py_str 19 = ''19''
   \<and> py_str 20 = ''20''"
  by code_simp

lemma process_field_layout:
  "process_field ''reserved_positions'' value d = Inr d"
  "process_field ''record_type'' value d = up (process_record_type value) (store d)"
  "process_field ''resident_status'' value d = up (process_resident_status value) (store d)"
  "process_field ''education'' value d = up (process_education value) (store d)"
  "process_field ''education_reporting_flag'' value d = up (process_education_reporting_flag value) (\<lambda>kv. Inr d)"
  "process_field ''month_of_death'' value d = up (process_month_of_death value) (store d)"
  "process_field ''sex'' value d = up (process_sex value) (store d)"
  "process_field ''detail_age'' value d = up (process_detail_age value) (store d)"
  "process_field ''age_substitution_flag'' value d = up (process_age_substitution_flag value) (store d)"
  "process_field ''age_recode_52'' value d = up (process_age_recode_52 value) (store d)"
  "process_field ''age_recode_27'' value d = up (process_age_recode_27 value) (store d)"
  "process_field ''age_recode_12'' value d = up (process_age_recode_12 value) (store d)"
  "process_field ''infant_age_recode_22'' value d = up (process_infant_age_recode_22 value) (store d)"
  "process_field ''place_of_death_and_decedents_status'' value d = up (process_place_of_death value) (store d)"
  "process_field ''marital_status'' value d = up (process_marital_status value) (store d)"
  "process_field ''day_of_week_of_death'' value d = up (process_day_of_week_of_death value) (store d)"
  "process_field ''current_data_year'' value d = Inr d"
  "process_field ''injury_at_work'' value d = up (process_injury_at_work value) (store d)"
  "process_field ''manner_of_death'' value d = up (process_manner_of_death value) (store d)"
  "process_field ''method_of_disposition'' value d = up (process_method_of_disposition value) (store d)"
  "process_field ''autopsy'' value d = up (process_autopsy value) (store d)"
  "process_field ''activity_code'' value d = up (process_activity_code value) (store d)"
  "process_field ''place_of_injury'' value d = up (process_place_of_injury value) (store d)"
  "process_field ''icd_code'' value d = up (process_icd_code value) (store d)"
  "process_field ''cause_recode_358'' value d = up (process_cause_recode_358 value) (store d)"
  "process_field ''cause_recode_113'' value d = up (process_cause_recode_113 value) (store d)"
  "process_field ''infant_cause_recode_130'' value d = up (process_infant_cause_recode_130 value) (store d)"
  "process_field ''cause_recode_39'' value d = up (process_cause_recode_39 value) (store d)"
  "process_field ''number_of_entity_axis_conditions'' value d = up (process_number_of_entity_axis_conditions value) (store d)"
  "process_field ''entity_axis_condition_1'' value d = up (process_entity_axis_condition 1 value) (store d)"
  "process_field ''entity_axis_condition_2'' value d = up (process_entity_axis_condition 2 value) (store d)"
  "process_field ''entity_axis_condition_3'' value d = up (process_entity_axis_condition 3 value) (store d)"
  "process_field ''entity_axis_condition_4'' value d = up (process_entity_axis_condition 4 value) (store d)"
  "process_field ''entity_axis_condition_5'' value d = up (process_entity_axis_condition 5 value) (store d)"
  "process_field ''entity_axis_condition_6'' value d = up (process_entity_axis_condition 6 value) (store d)"
  "process_field ''entity_axis_condition_7'' value d = up (process_entity_axis_condition 7 value) (store d)"
  "process_field ''entity_axis_condition_8'' value d = up (process_entity_axis_condition 8 value) (store d)"
  "process_field ''entity_axis_condition_9'' value d = up (process_entity_axis_condition 9 value) (store d)"
  "process_field ''entity_axis_condition_10'' value d = up (process_entity_axis_condition 10 value) (store d)"
  "process_field ''entity_axis_condition_11'' value d = up (process_entity_axis_condition 11 value) (store d)"
  "process_field ''entity_axis_condition_12'' value d = up (process_entity_axis_condition 12 value) (store d)"
  "process_field ''entity_axis_condition_13'' value d = up (process_entity_axis_condition 13 value) (store d)"
  "process_field ''entity_axis_condition_14'' value d = up (process_entity_axis_condition 14 value) (store d)"
  "process_field ''entity_axis_condition_15'' value d = up (process_entity_axis_condition 15 value) (store d)"
  "process_field ''entity_axis_condition_16'' value d = up (process_entity_axis_condition 16 value) (store d)"
  "process_field ''entity_axis_condition_17'' value d = up (process_entity_axis_condition 17 value) (store d)"
  "process_field ''entity_axis_condition_18'' value d = up (process_entity_axis_condition 18 value) (store d)"
  "process_field ''entity_axis_condition_19'' value d = up (process_entity_axis_condition 19 value) (store d)"
  "process_field ''entity_axis_condition_20'' value d = up (process_entity_axis_condition 20 value) (store d)"
  "process_field ''number_of_record_axis_conditions'' value d = up (process_number_of_record_axis_conditions value) (store d)"
  "process_field ''record_axis_condition_1'' value d = up (process_record_axis_condition 1 value) (store d)"
  "process_field ''record_axis_condition_2'' value d = up (process_record_axis_condition 2 value) (store d)"
  "process_field ''record_axis_condition_3'' value d = up (process_record_axis_condition 3 value) (store d)"
  "process_field ''record_axis_condition_4'' value d = up (process_record_axis_condition 4 value) (store d)"
  "process_field ''record_axis_condition_5'' value d = up (process_record_axis_condition 5 value) (store d)"
  "process_field ''record_axis_condition_6'' value d = up (process_record_axis_condition 6 value) (store d)"
  "process_field ''record_axis_condition_7'' value d = up (process_record_axis_condition 7 value) (store d)"
  "process_field ''record_axis_condition_8'' value d = up (process_record_axis_condition 8 value) (store d)"
  "process_field ''record_axis_condition_9'' value d = up (process_record_axis_condition 9 value) (store d)"
  "process_field ''record_axis_condition_10'' value d = up (process_record_axis_condition 10 value) (store d)"
  "process_field ''record_axis_condition_11'' value d = up (process_record_axis_condition 11 value) (store d)"
  "process_field ''record_axis_condition_12'' value d = up (process_record_axis_condition 12 value) (store d)"
  "process_field ''record_axis_condition_13'' value d = up (process_record_axis_condition 13 value) (store d)"
  "process_field ''record_axis_condition_14'' value d = up (process_record_axis_condition 14 value) (store d)"
  "process_field ''record_axis_condition_15'' value d = up (process_record_axis_condition 15 value) (store d)"
  "process_field ''record_axis_condition_16'' value d = up (process_record_axis_condition 16 value) (store d)"
  "process_field ''record_axis_condition_17'' value d = up (process_record_axis_condition 17 value) (store d)"
  "process_field ''record_axis_condition_18'' value d = up (process_record_axis_condition 18 value) (store d)"
  "process_field ''record_axis_condition_19'' value d = up (process_record_axis_condition 19 value) (store d)"
  "process_field ''record_axis_condition_20'' value d = up (process_record_axis_condition 20 value) (store d)"
  "process_field ''race_imputation_flag'' value d = up (process_race_imputation_flag value) (store d)"
  "process_field ''race_recode_6'' value d = up (process_race_recode_6 value) (store d)"
  "process_field ''hispanic_origin'' value d = up (process_hispanic_origin value) (store d)"
  "process_field ''hispanic_origin_race_recode'' value d = up (process_hispanic_origin_race_recode value) (store d)"
  "process_field ''race_recode_40'' value d = up (process_race_recode_40 value) (store d)"
  "process_field ''decedents_usual_occindu_occupation_4_digit_code'' value d = up (process_decedent_occupation_code value) (store d)"
  "process_field ''decedents_usual_occindu_occupation_recode'' value d = up (process_decedent_occupation_recode value) (store d)"
  "process_field ''decedents_usual_occindu_industry_4_digit_code'' value d = up (process_decedent_industry_code value) (store d)"
  "process_field ''decedents_usual_occindu_industry_recode'' value d = up (process_decedent_industry_recode value) (store d)"
  by (simp_all add: process_field_def startswith_def field_number_slots up_simps)


lemma text_before: "b \<le> n \<Longrightarrow> strip (slice (replicate n CHR '' '' @ s) a b) = []"
proof -
  assume "b \<le> n"
  then have "slice (replicate n CHR '' '' @ s) a b = replicate (b - a) CHR '' ''"
    by (simp add: slice_def min_def)
  moreover have "strip (replicate (b - a) CHR '' '') = []"
    by (simp add: strip_def py_isspace_def)
  ultimately show ?thesis by simp
qed

lemma text_after: "n \<le> a \<Longrightarrow> slice (replicate n c @ s) a b = slice s (a - n) (b - n)"
  by (simp add: slice_def)

lemma strip_leading_blanks: "strip (replicate m CHR '' '' @ s) = strip s"
proof -
  have "dropWhile py_isspace (replicate m CHR '' '' @ s) = dropWhile py_isspace s"
    by (induction m) (simp_all add: py_isspace_def)
  then show ?thesis by (simp only: strip_def)
qed

lemma text_at:
  "a \<le> n \<Longrightarrow> n \<le> b \<Longrightarrow> strip (slice (replicate n CHR '' '' @ s) a b) = strip (take (b - n) s)"
proof -
  assume "a \<le> n" "n \<le> b"
  then have "slice (replicate n CHR '' '' @ s) a b = replicate (n - a) CHR '' '' @ take (b - n) s"
    by (auto simp: slice_def min_def)
  then show ?thesis by (simp add: strip_leading_blanks)
qed

lemma strip_Nil: "strip [] = []"
  by (simp add: strip_def)

lemma slice_Nil: "slice [] a b = []"
  by (simp add: slice_def)

lemma slice_literal: "slice (x # xs) a b = take (b - a) (drop a (x # xs))"
  by (simp add: slice_def)

lemma strip_literal:
  "strip (x # xs) = rev (dropWhile py_isspace (rev (dropWhile py_isspace (x # xs))))"
  by (simp add: strip_def)

lemmas eval_line = process_line_def mapping_def process_field_layout up_simps decoders_blank
  py_str_slots store_def strip_Nil slice_Nil text_before text_after text_at slice_literal
  strip_literal py_isspace_def

subsection \<open>Batches\<close>

lemma concat_slices:
  "concat (map (\<lambda>k. slice xs (k * s) (k * s + s)) [0 ..< m]) = take (m * s) xs"
proof (induction m)
  case 0
  show ?case by simp
next
  case (Suc m)
  have "take (m * s) xs @ take s (drop (m * s) xs) = take (m * s + s) xs"
    by (simp add: take_add)
  with Suc show ?case by (simp add: slice_def add.commute)
qed

lemma ceil_div_covers: "1 \<le> s \<Longrightarrow> n \<le> ((n + s - 1) div s) * (s::nat)"
proof -
  assume s: "1 \<le> s"
  have "(n + s - 1) = ((n + s - 1) div s) * s + (n + s - 1) mod s" by simp
  moreover have "(n + s - 1) mod s < s" using s by simp
  ultimately show ?thesis by linarith
qed

lemma lpp_pos: "1 \<le> lines_per_process W lines"
  by (simp add: lines_per_process_def)

lemma concat_batches: "concat (batches W lines) = lines"
  using ceil_div_covers [OF lpp_pos, of "length lines" W lines]
  by (simp add: batches_def py_range_def concat_slices o_def)

lemma length_batches:
  "length (batches W lines) = (length lines + lines_per_process W lines - 1) div lines_per_process W lines"
  by (simp add: batches_def py_range_def)

lemma nth_batches:
  "k < length (batches W lines) \<Longrightarrow>
   batches W lines ! k = take (lines_per_process W lines) (drop (k * lines_per_process W lines) lines)"
  by (simp add: batches_def py_range_def slice_def)

lemma ceil_div_tight: "1 \<le> s \<Longrightarrow> ((n + s - 1) div s) * s < n + (s::nat)"
proof -
  assume s: "1 \<le> s"
  have "(n + s - 1) = ((n + s - 1) div s) * s + (n + s - 1) mod s" by simp
  then show ?thesis using s by linarith
qed

lemma batch_start_inside:
  assumes "k < length (batches W lines)"
  shows "k * lines_per_process W lines < length lines"
proof -
  let ?s = "lines_per_process W lines"
  let ?m = "(length lines + ?s - 1) div ?s"
  from assms have "Suc k \<le> ?m" by (simp add: length_batches)
  then have "Suc k * ?s \<le> ?m * ?s" by (rule mult_le_mono1)
  moreover have "?m * ?s < length lines + ?s" by (rule ceil_div_tight [OF lpp_pos])
  ultimately show ?thesis by simp
qed

lemma batch_full:
  assumes "Suc k < length (batches W lines)"
  shows "length (batches W lines ! k) = lines_per_process W lines"
proof -
  let ?s = "lines_per_process W lines"
  from batch_start_inside [OF assms] have "Suc k * ?s < length lines" .
  moreover from assms have "k < length (batches W lines)" by simp
  ultimately show ?thesis by (simp add: nth_batches)
qed

lemma batch_size_bounds:
  assumes "b \<in> set (batches W lines)"
  shows "1 \<le> length b \<and> length b \<le> lines_per_process W lines"
proof -
  from assms obtain k where k: "k < length (batches W lines)" "b = batches W lines ! k"
    by (auto simp: in_set_conv_nth)
  from batch_start_inside [OF k(1)] lpp_pos [of W lines] show ?thesis
    unfolding k(2) by (simp add: nth_batches [OF k(1)])
qed

lemma batches_count_bound:
  assumes "1 \<le> W"
  shows "length (batches W lines) < 2 * W"
proof (cases "length lines < W")
  case True
  then have "lines_per_process W lines = 1" by (simp add: lines_per_process_def)
  then show ?thesis using True by (simp add: length_batches)
next
  case False
  define n where "n = length lines"
  define q where "q = n div W"
  from False assms have q: "1 \<le> q"
    unfolding q_def n_def by (simp add: Suc_le_eq div_greater_zero_iff)
  then have s: "lines_per_process W lines = q"
    by (simp add: lines_per_process_def q_def n_def)
  have "n = W * q + n mod W" unfolding q_def by simp
  moreover have "n mod W < W" using assms by simp
  ultimately have n: "n < W * q + W" by linarith
  obtain W' q' where Wq: "W = Suc W'" "q = Suc q'"
    using assms q by (cases W; cases q) auto
  have "W + q - 1 \<le> W * q" unfolding Wq by simp
  with n q have "n + q - 1 < 2 * W * q" by simp
  then have "(n + q - 1) div q < 2 * W" by (rule less_mult_imp_div_less)
  then show ?thesis by (simp add: length_batches s n_def)
qed










subsection \<open>The pipeline over the batches\<close>









subsection \<open>Lines used as examples\<close>



lemma detail_age_6000: "process_detail_age ''6000'' = Inr (''detail_age'', PInt 0)"
  by code_simp

lemma age_recode_27_01: "process_age_recode_27 ''01'' = Inr (''age_recode_27'', PTuple 0 2592000000)"
  by code_simp

lemma line2_values:
  "\<exists>d. process_line (replicate 69 CHR '' '' @ ''6000   01'') = Inr d
     \<and> dict_get d ''detail_age'' = PInt 0
     \<and> dict_get d ''infant_age_recode_22'' = PNone
     \<and> dict_get d ''age_recode_52'' = PNone
     \<and> dict_get d ''age_recode_27'' = PTuple 0 2592000000
     \<and> dict_get d ''age_recode_12'' = PNone"
  by (simp add: eval_line detail_age_6000 age_recode_27_01 dict_get_update dict_get_Nil
      del: AList.update.simps)

section \<open>Properties of the field decoders\<close>

text \<open>
  C1. For code 22 ("Asian and White") the composite branch of
  \<^verbatim>\<open>process_race_recode_40\<close> returns the parts of the label as they are split,
  \<open>ASIAN\<close> and \<open>WHITE\<close>: the renaming loop assigns to its loop variable and leaves the
  returned list unchanged, so \<open>ASIAN\<close> is not renamed to \<open>OTHER_ASIAN\<close>. The direct
  code 04 yields the one unmodified label.
\<close>

theorem race_recode_40_code_22_not_renamed:
  "process_race_recode_40 ''22'' = Inr (''race_recode_40'', PList [PStr ''ASIAN'', PStr ''WHITE''])
   \<and> process_race_recode_40 ''04'' = Inr (''race_recode_40'', PList [PStr ''ASIAN_INDIAN''])"
  by code_simp

text \<open>
  C6. The detail age "3005" has the unit selector 3, which passes the test
  \<open>1 \<le> based_on \<le> 6\<close> and is not a key of the unit table: the decoder raises
  \<^verbatim>\<open>KeyError\<close> instead of returning an absent value. The selectors 1 and 9 behave as
  described: a product with the unit constant, and absent.
\<close>

theorem detail_age_selector_3_raises:
  "process_detail_age ''3005'' = Inl (Raised (KeyError 3))
   \<and> process_detail_age ''1005'' = Inr (''detail_age'', PInt (5 * YEARS_AS_MS))
   \<and> process_detail_age ''9005'' = Inr (''detail_age'', PNone)"
  by code_simp

text \<open>
  C7. On the empty text every decoder succeeds with an absent value, except the age
  substitution flag and the race imputation flag, which succeed with \<open>False\<close>.
\<close>

theorem blank_decodes_absent:
  "process_record_type [] = Inr (''record_type'', PNone)
   \<and> process_resident_status [] = Inr (''resident_status'', PNone)
   \<and> process_education [] = Inr (''education'', PNone)
   \<and> process_education_reporting_flag [] = Inr (''education_reporting_flag'', PNone)
   \<and> process_month_of_death [] = Inr (''month_of_death'', PNone)
   \<and> process_sex [] = Inr (''sex'', PNone)
   \<and> process_detail_age [] = Inr (''detail_age'', PNone)
   \<and> process_age_recode_52 [] = Inr (''age_recode_52'', PNone)
   \<and> process_age_recode_27 [] = Inr (''age_recode_27'', PNone)
   \<and> process_age_recode_12 [] = Inr (''age_recode_12'', PNone)
   \<and> process_infant_age_recode_22 [] = Inr (''infant_age_recode_22'', PNone)
   \<and> process_place_of_death [] = Inr (''place_of_death'', PNone)
   \<and> process_marital_status [] = Inr (''marital_status'', PNone)
   \<and> process_day_of_week_of_death [] = Inr (''day_of_week_of_death'', PNone)
   \<and> process_injury_at_work [] = Inr (''injury_at_work'', PNone)
   \<and> process_manner_of_death [] = Inr (''manner_of_death'', PNone)
   \<and> process_method_of_disposition [] = Inr (''method_of_disposition'', PNone)
   \<and> process_autopsy [] = Inr (''autopsy'', PNone)
   \<and> process_activity_code [] = Inr (''activity_code'', PNone)
   \<and> process_place_of_injury [] = Inr (''place_of_injury'', PNone)
   \<and> process_icd_code [] = Inr (''icd_code'', PNone)
   \<and> process_cause_recode_358 [] = Inr (''cause_recode_358'', PNone)
   \<and> process_cause_recode_113 [] = Inr (''cause_recode_113'', PNone)
   \<and> process_infant_cause_recode_130 [] = Inr (''infant_cause_recode_130'', PNone)
   \<and> process_cause_recode_39 [] = Inr (''cause_recode_39'', PNone)
   \<and> process_number_of_entity_axis_conditions [] = Inr (''number_of_entity_axis_conditions'', PNone)
   \<and> process_number_of_record_axis_conditions [] = Inr (''number_of_record_axis_conditions'', PNone)
   \<and> process_race_recode_6 [] = Inr (''race_recode_6'', PNone)
   \<and> process_hispanic_origin [] = Inr (''hispanic_origin'', PNone)
   \<and> process_hispanic_origin_race_recode [] = Inr (''hispanic_origin_race_recode'', PNone)
   \<and> process_race_recode_40 [] = Inr (''race_recode_40'', PNone)
   \<and> process_decedent_occupation_code [] = Inr (''decedent_occupation_code'', PNone)
   \<and> process_decedent_occupation_recode [] = Inr (''decedent_occupation_recode'', PNone)
   \<and> process_decedent_industry_code [] = Inr (''decedent_industry_code'', PNone)
   \<and> process_decedent_industry_recode [] = Inr (''decedent_industry_recode'', PNone)
   \<and> process_entity_axis_condition n [] = Inr (''entity_axis_condition_'' @ py_str n, PNone)
   \<and> process_record_axis_condition n [] = Inr (''record_axis_condition_'' @ py_str n, PNone)
   \<and> process_age_substitution_flag [] = Inr (''age_substitution_flag'', PBool False)
   \<and> process_race_imputation_flag [] = Inr (''race_imputation_flag'', PBool False)"
  by (rule decoders_blank)

theorem blank_decodes_absent_witness:
  "process_month_of_death [] = Inr (''month_of_death'', PNone)
   \<and> process_entity_axis_condition 3 [] = Inr (''entity_axis_condition_3'', PNone)
   \<and> process_race_imputation_flag [] = Inr (''race_imputation_flag'', PBool False)"
proof -
  have s: "py_str 3 = ''3''" by code_simp
  show ?thesis using blank_decodes_absent [of 3] by (simp add: s)
qed

text \<open>
  C8. For a non-empty text that parses as the integer \<open>v\<close>: the month of death is an
  error outside 1..12, both condition counts are errors outside 0..20, and the 39-cause
  recode outside 1..42 succeeds with an absent value.
\<close>

theorem bounded_integer_asymmetry:
  assumes "value \<noteq> []" and "try_parse_int value = Inr v"
  shows "(v < 1 \<or> 12 < v \<longrightarrow>
            process_month_of_death value =
              Inl (Err (''Invalid value for month_of_death: '' @ py_str v)))
       \<and> (v < 0 \<or> 20 < v \<longrightarrow>
            process_number_of_entity_axis_conditions value =
              Inl (Err (''Invalid value for number_of_entity_axis_conditions: '' @ py_str v)))
       \<and> (v < 0 \<or> 20 < v \<longrightarrow>
            process_number_of_record_axis_conditions value =
              Inl (Err (''Invalid value for number_of_record_axis_conditions: '' @ py_str v)))
       \<and> (v < 1 \<or> 42 < v \<longrightarrow>
            process_cause_recode_39 value = Inr (''cause_recode_39'', PNone))"
  using assms
  by (auto simp: process_month_of_death_def process_number_of_entity_axis_conditions_def
        process_number_of_record_axis_conditions_def process_cause_recode_39_def up_def)

theorem bounded_integer_asymmetry_witness:
  "try_parse_int ''99'' = Inr 99
   \<and> process_month_of_death ''99'' = Inl (Err ''Invalid value for month_of_death: 99'')
   \<and> process_number_of_entity_axis_conditions ''99'' =
       Inl (Err ''Invalid value for number_of_entity_axis_conditions: 99'')
   \<and> process_number_of_record_axis_conditions ''99'' =
       Inl (Err ''Invalid value for number_of_record_axis_conditions: 99'')
   \<and> process_cause_recode_39 ''99'' = Inr (''cause_recode_39'', PNone)"
proof -
  have h1: "''99'' \<noteq> []" by simp
  have h2: "try_parse_int ''99'' = Inr 99" by code_simp
  have s: "py_str 99 = ''99''" by code_simp
  show ?thesis using bounded_integer_asymmetry [OF h1 h2] h2 by (simp add: s)
qed

section \<open>Properties of the row assembler\<close>

text \<open>
  C2. A line whose detail age is "6000" (zero minutes) and whose 27-way recode is "01"
  (under one month), every other age field blank. The detail age decodes to the duration 0,
  which Python's \<^verbatim>\<open>or\<close> passes over as falsy, so the row takes the bounds of the
  recode (0 and one month, 2592000000 ms) and not the detail-age bounds (0 and 0).
\<close>

theorem zero_detail_age_passed_over:
  "process_detail_age ''6000'' = Inr (''detail_age'', PInt 0)
   \<and> column ''age_lower_bound'' (replicate 69 CHR '' '' @ ''6000   01'') = Inr (PInt 0)
   \<and> column ''age_upper_bound'' (replicate 69 CHR '' '' @ ''6000   01'') = Inr (PInt 2592000000)"
proof -
  obtain d where d: "process_line (replicate 69 CHR '' '' @ ''6000   01'') = Inr d"
    "dict_get d ''detail_age'' = PInt 0"
    "dict_get d ''infant_age_recode_22'' = PNone"
    "dict_get d ''age_recode_52'' = PNone"
    "dict_get d ''age_recode_27'' = PTuple 0 2592000000"
    "dict_get d ''age_recode_12'' = PNone"
    using line2_values by blast
  have "final_age d = PTuple 0 2592000000"
    by (simp add: final_age_def d py_or_def)
  then show ?thesis
    by (simp add: column_def row_of_line_def d(1) up_simps assemble_row_def dict_get_update
        age_bounds_def detail_age_6000 del: AList.update.simps)
qed

section \<open>Properties of the batch pipeline\<close>






text \<open>
  C5. With two workers and seven lines the batch size is \<open>7 div 2 = 3\<close>, not
  \<open>ceil(7/2) = 4\<close>, and there are three batches, more than the two workers.
\<close>

theorem seven_lines_two_workers:
  "lines_per_process 2 [''a'', ''b'', ''c'', ''d'', ''e'', ''f'', ''g''] = 3
   \<and> batches 2 [''a'', ''b'', ''c'', ''d'', ''e'', ''f'', ''g'']
       = [[''a'', ''b'', ''c''], [''d'', ''e'', ''f''], [''g'']]
   \<and> \<not> length (batches 2 [''a'', ''b'', ''c'', ''d'', ''e'', ''f'', ''g'']) \<le> 2"
  by code_simp

text \<open>
  C5, as amended. The worker count is \<open>max(cpu_count - 2, 1)\<close>, at least 1. For every
  \<open>W \<ge> 1\<close> the batch size is \<open>max 1 (N div W)\<close>, the floor and not the ceiling of \<open>N/W\<close>;
  the batches are contiguous, in the order of the lines, and their concatenation is the
  input; every batch but the last has exactly that size and the last has between 1 and
  that many lines; there are \<open>ceil(N / size)\<close> batches, fewer than \<open>2 W\<close>.
\<close>

theorem batches_floor_sized:
  assumes "1 \<le> W"
  shows "lines_per_process W lines = max 1 (length lines div W)
       \<and> concat (batches W lines) = lines
       \<and> length (batches W lines)
           = (length lines + lines_per_process W lines - 1) div lines_per_process W lines
       \<and> length (batches W lines) < 2 * W
       \<and> (\<forall>k. Suc k < length (batches W lines)
              \<longrightarrow> length (batches W lines ! k) = lines_per_process W lines)
       \<and> (\<forall>b\<in>set (batches W lines). 1 \<le> length b \<and> length b \<le> lines_per_process W lines)
       \<and> 1 \<le> MAX_PARALLEL_PROCESSING cpu_count
       \<and> MAX_PARALLEL_PROCESSING (Some c) = max (c - 2) 1"
proof -
  have "MAX_PARALLEL_PROCESSING (Some c) = max (c - 2) 1"
    by (simp add: MAX_PARALLEL_PROCESSING_def)
  moreover have "1 \<le> MAX_PARALLEL_PROCESSING cpu_count"
    by (simp add: MAX_PARALLEL_PROCESSING_def)
  moreover have "lines_per_process W lines = max 1 (length lines div W)"
    by (simp add: lines_per_process_def)
  ultimately show ?thesis
    using concat_batches [of W lines] length_batches [of W lines]
      batches_count_bound [OF assms, of lines] batch_full [of _ W lines]
      batch_size_bounds [of _ W lines]
    by blast
qed

theorem batches_floor_sized_witness:
  "concat (batches 2 [''a'', ''b'', ''c'', ''d'', ''e'', ''f'', ''g''])
     = [''a'', ''b'', ''c'', ''d'', ''e'', ''f'', ''g'']
   \<and> length (batches 2 [''a'', ''b'', ''c'', ''d'', ''e'', ''f'', ''g'']) < 2 * 2
   \<and> MAX_PARALLEL_PROCESSING (Some 4) = max (4 - 2) 1"
proof -
  have w: "(1::nat) \<le> 2" by simp
  from batches_floor_sized [OF w, of "[''a'', ''b'', ''c'', ''d'', ''e'', ''f'', ''g'']" None 4]
  show ?thesis by blast
qed

section \<open>Properties of \<^verbatim>\<open>process_line\<close> on short lines\<close>




section \<open>Properties of the condition lists\<close>

text \<open>
  The layout is cut into the fields before the entity-axis slots, the twenty slots, and
  the fields after them. No field after the slots stores under a key of a slot, so the
  values the slots stored are the ones the row assembler reads.
\<close>

lemma process_fields_append:
  "process_fields line (xs @ ys) d = up (process_fields line xs d) (process_fields line ys)"
proof (induction xs arbitrary: d)
  case Nil
  show ?case by (simp add: up_simps)
next
  case (Cons e xs)
  obtain start end' field where e: "e = ((start, end'), field)" by (cases e) auto
  show ?case unfolding e
    by (cases "process_field field (strip (slice line (start - 1) end')) d")
       (simp_all add: up_simps Cons.IH)
qed

lemma fields_preserve:
  assumes "\<forall>e\<in>set m. \<forall>v d d'. process_field (snd e) v d = Inr d' \<longrightarrow> dict_get d' k = dict_get d k"
    and "process_fields line m d0 = Inr d"
  shows "dict_get d k = dict_get d0 k"
  using assms
proof (induction m arbitrary: d0)
  case Nil
  then show ?case by simp
next
  case (Cons e m)
  obtain start end' field where e: "e = ((start, end'), field)" by (cases e) auto
  from Cons.prems(2) obtain d1 where
    d1: "process_field field (strip (slice line (start - 1) end')) d0 = Inr d1"
    and rest: "process_fields line m d1 = Inr d"
    unfolding e by (auto simp: up_eq_Inr)
  from Cons.prems(1) d1 have "dict_get d1 k = dict_get d0 k" unfolding e by auto
  moreover from Cons.prems(1) have "dict_get d k = dict_get d1 k"
    by (intro Cons.IH [OF _ rest]) simp
  ultimately show ?case by simp
qed

lemma later_decoder_keys:
    "process_number_of_record_axis_conditions v = Inr kv \<Longrightarrow> fst kv = ''number_of_record_axis_conditions''"
    "process_race_imputation_flag v = Inr kv \<Longrightarrow> fst kv = ''race_imputation_flag''"
    "process_race_recode_6 v = Inr kv \<Longrightarrow> fst kv = ''race_recode_6''"
    "process_hispanic_origin v = Inr kv \<Longrightarrow> fst kv = ''hispanic_origin''"
    "process_hispanic_origin_race_recode v = Inr kv \<Longrightarrow> fst kv = ''hispanic_origin_race_recode''"
    "process_race_recode_40 v = Inr kv \<Longrightarrow> fst kv = ''race_recode_40''"
    "process_decedent_occupation_code v = Inr kv \<Longrightarrow> fst kv = ''decedent_occupation_code''"
    "process_decedent_occupation_recode v = Inr kv \<Longrightarrow> fst kv = ''decedent_occupation_recode''"
    "process_decedent_industry_code v = Inr kv \<Longrightarrow> fst kv = ''decedent_industry_code''"
    "process_decedent_industry_recode v = Inr kv \<Longrightarrow> fst kv = ''decedent_industry_recode''"
    "process_record_axis_condition n v = Inr kv \<Longrightarrow> fst kv = ''record_axis_condition_'' @ py_str n"
  by (auto simp: process_number_of_record_axis_conditions_def process_race_imputation_flag_def process_race_recode_6_def process_hispanic_origin_def process_hispanic_origin_race_recode_def process_race_recode_40_def process_decedent_occupation_code_def process_decedent_occupation_recode_def process_decedent_industry_code_def process_decedent_industry_recode_def process_record_axis_condition_def
        up_def Let_def split: sum.splits if_splits pyval.splits)

lemma entity_slots: "take 20 (drop 35 mapping) =
    [((165, 171), ''entity_axis_condition_1''),
     ((172, 178), ''entity_axis_condition_2''),
     ((179, 185), ''entity_axis_condition_3''),
     ((186, 192), ''entity_axis_condition_4''),
     ((193, 199), ''entity_axis_condition_5''),
     ((200, 206), ''entity_axis_condition_6''),
     ((207, 213), ''entity_axis_condition_7''),
     ((214, 220), ''entity_axis_condition_8''),
     ((221, 227), ''entity_axis_condition_9''),
     ((228, 234), ''entity_axis_condition_10''),
     ((235, 241), ''entity_axis_condition_11''),
     ((242, 248), ''entity_axis_condition_12''),
     ((249, 255), ''entity_axis_condition_13''),
     ((256, 262), ''entity_axis_condition_14''),
     ((263, 269), ''entity_axis_condition_15''),
     ((270, 276), ''entity_axis_condition_16''),
     ((277, 283), ''entity_axis_condition_17''),
     ((284, 290), ''entity_axis_condition_18''),
     ((291, 297), ''entity_axis_condition_19''),
     ((298, 304), ''entity_axis_condition_20'')]"
  by (simp add: mapping_def)

lemma later_fields: "drop 55 mapping =
    [((305, 340), ''reserved_positions''),
     ((341, 342), ''number_of_record_axis_conditions''),
     ((343, 343), ''reserved_positions''),
     ((344, 348), ''record_axis_condition_1''),
     ((349, 353), ''record_axis_condition_2''),
     ((354, 358), ''record_axis_condition_3''),
     ((359, 363), ''record_axis_condition_4''),
     ((364, 368), ''record_axis_condition_5''),
     ((369, 373), ''record_axis_condition_6''),
     ((374, 378), ''record_axis_condition_7''),
     ((379, 383), ''record_axis_condition_8''),
     ((384, 388), ''record_axis_condition_9''),
     ((389, 393), ''record_axis_condition_10''),
     ((394, 398), ''record_axis_condition_11''),
     ((399, 403), ''record_axis_condition_12''),
     ((404, 408), ''record_axis_condition_13''),
     ((409, 413), ''record_axis_condition_14''),
     ((414, 418), ''record_axis_condition_15''),
     ((419, 423), ''record_axis_condition_16''),
     ((424, 428), ''record_axis_condition_17''),
     ((429, 433), ''record_axis_condition_18''),
     ((434, 438), ''record_axis_condition_19''),
     ((439, 443), ''record_axis_condition_20''),
     ((444, 447), ''reserved_positions''),
     ((448, 448), ''race_imputation_flag''),
     ((449, 449), ''reserved_positions''),
     ((450, 450), ''race_recode_6''),
     ((451, 483), ''reserved_positions''),
     ((484, 486), ''hispanic_origin''),
     ((487, 488), ''hispanic_origin_race_recode''),
     ((489, 490), ''race_recode_40''),
     ((491, 805), ''reserved_positions''),
     ((806, 809), ''decedents_usual_occindu_occupation_4_digit_code''),
     ((810, 811), ''decedents_usual_occindu_occupation_recode''),
     ((812, 815), ''decedents_usual_occindu_industry_4_digit_code''),
     ((816, 817), ''decedents_usual_occindu_industry_recode'')]"
  by (simp add: mapping_def)

lemma later_fields_preserve:
  assumes "take 22 k = ''entity_axis_condition_''"
    and "process_fields line (drop 55 mapping) d2 = Inr d"
  shows "dict_get d k = dict_get d2 k"
proof (rule fields_preserve [OF _ assms(2)])
  show "\<forall>e\<in>set (drop 55 mapping). \<forall>v d d'.
          process_field (snd e) v d = Inr d' \<longrightarrow> dict_get d' k = dict_get d k"
    using assms(1) unfolding later_fields
    by (auto simp: process_field_layout up_eq_Inr store_def dict_get_update
          dest!: later_decoder_keys)
qed

lemma entity_216000:
  "process_entity_axis_condition 3 ''216000'' =
     Inr (''entity_axis_condition_3'',
          PDict [(''certificate_part'', PStr ''PART_I''), (''certificate_line'', PInt 1),
                 (''condition'', PStr ''6000'')])"
  by code_simp

lemma collect_fold:
  "fold (\<lambda>i out. let c = f i in if truthy c then out @ [c] else out) xs acc
     = acc @ filter truthy (map f xs)"
  by (induction xs arbitrary: acc) (simp_all add: Let_def)

lemma entity_keys:
  "map (\<lambda>i. ''entity_axis_condition_'' @ py_str (int i)) [1 ..< 21] =
     [''entity_axis_condition_1'', ''entity_axis_condition_2'', ''entity_axis_condition_3'', ''entity_axis_condition_4'', ''entity_axis_condition_5'', ''entity_axis_condition_6'', ''entity_axis_condition_7'', ''entity_axis_condition_8'', ''entity_axis_condition_9'', ''entity_axis_condition_10'', ''entity_axis_condition_11'', ''entity_axis_condition_12'', ''entity_axis_condition_13'', ''entity_axis_condition_14'', ''entity_axis_condition_15'', ''entity_axis_condition_16'', ''entity_axis_condition_17'', ''entity_axis_condition_18'', ''entity_axis_condition_19'', ''entity_axis_condition_20'']"
  by code_simp

lemma collect_conditions_eq:
  "collect_conditions name d =
     filter truthy (map (dict_get d) (map (\<lambda>i. name @ py_str (int i)) [1 ..< 21]))"
  by (simp add: collect_conditions_def collect_fold o_def)

lemma only_slot_3:
  assumes "process_line line = Inr d"
    and "field_text line ''entity_axis_condition_3'' = ''216000''"
    and "\<forall>n. 1 \<le> n \<and> n \<le> 20 \<and> n \<noteq> 3
           \<longrightarrow> field_text line (''entity_axis_condition_'' @ py_str n) = []"
  shows "dict_get (assemble_row d) ''entity_axis_conditions''
           = PList [PDict [(''certificate_part'', PStr ''PART_I''), (''certificate_line'', PInt 1),
                           (''condition'', PStr ''6000'')]]"
proof -
  let ?X = "PDict [(''certificate_part'', PStr ''PART_I''), (''certificate_line'', PInt 1),
                   (''condition'', PStr ''6000'')]"
  have t: "\<And>n. 1 \<le> n \<Longrightarrow> n \<le> 20 \<Longrightarrow> n \<noteq> 3
              \<Longrightarrow> field_text line (''entity_axis_condition_'' @ py_str n) = []"
    using assms(3) by blast
  have texts:
     "strip (slice line 164 171) = [] \<and>
      strip (slice line 171 178) = [] \<and>
      strip (slice line 178 185) = ''216000'' \<and>
      strip (slice line 185 192) = [] \<and>
      strip (slice line 192 199) = [] \<and>
      strip (slice line 199 206) = [] \<and>
      strip (slice line 206 213) = [] \<and>
      strip (slice line 213 220) = [] \<and>
      strip (slice line 220 227) = [] \<and>
      strip (slice line 227 234) = [] \<and>
      strip (slice line 234 241) = [] \<and>
      strip (slice line 241 248) = [] \<and>
      strip (slice line 248 255) = [] \<and>
      strip (slice line 255 262) = [] \<and>
      strip (slice line 262 269) = [] \<and>
      strip (slice line 269 276) = [] \<and>
      strip (slice line 276 283) = [] \<and>
      strip (slice line 283 290) = [] \<and>
      strip (slice line 290 297) = [] \<and>
      strip (slice line 297 304) = []"
    using assms(2) t [of 1] t [of 2] t [of 4] t [of 5] t [of 6] t [of 7] t [of 8] t [of 9] t [of 10] t [of 11] t [of 12] t [of 13] t [of 14] t [of 15] t [of 16] t [of 17] t [of 18] t [of 19] t [of 20]
    by (simp add: field_text_def mapping_def py_str_slots)
  have "mapping = take 35 mapping @ take 20 (drop 35 mapping) @ drop 55 mapping"
    by (simp add: mapping_def)
  then have "process_line line
      = process_fields line (take 35 mapping @ (take 20 (drop 35 mapping) @ drop 55 mapping)) []"
    by (simp only: process_line_def)
  also have "\<dots> = up (process_fields line (take 35 mapping) [])
      (process_fields line (take 20 (drop 35 mapping) @ drop 55 mapping))"
    by (rule process_fields_append)
  also have "process_fields line (take 20 (drop 35 mapping) @ drop 55 mapping)
      = (\<lambda>d1. up (process_fields line (take 20 (drop 35 mapping)) d1)
               (process_fields line (drop 55 mapping)))"
    by (rule ext) (rule process_fields_append)
  finally have "process_line line
      = up (process_fields line (take 35 mapping) [])
          (\<lambda>d1. up (process_fields line (take 20 (drop 35 mapping)) d1)
             (process_fields line (drop 55 mapping)))" .
  with assms(1) obtain d1 d2 where
    d2: "process_fields line (take 20 (drop 35 mapping)) d1 = Inr d2"
    and d: "process_fields line (drop 55 mapping) d2 = Inr d"
    by (auto simp: up_eq_Inr)
  have keep: "\<And>k. take 22 k = ''entity_axis_condition_'' \<Longrightarrow> dict_get d k = dict_get d2 k"
    using d by (rule later_fields_preserve [rotated])
  from d2 have chain: "map (dict_get d2)
       [''entity_axis_condition_1'', ''entity_axis_condition_2'', ''entity_axis_condition_3'', ''entity_axis_condition_4'', ''entity_axis_condition_5'', ''entity_axis_condition_6'', ''entity_axis_condition_7'', ''entity_axis_condition_8'', ''entity_axis_condition_9'', ''entity_axis_condition_10'', ''entity_axis_condition_11'', ''entity_axis_condition_12'', ''entity_axis_condition_13'', ''entity_axis_condition_14'', ''entity_axis_condition_15'', ''entity_axis_condition_16'', ''entity_axis_condition_17'', ''entity_axis_condition_18'', ''entity_axis_condition_19'', ''entity_axis_condition_20'']
     = [PNone, PNone, ?X, PNone, PNone, PNone, PNone, PNone, PNone, PNone, PNone, PNone, PNone, PNone, PNone, PNone, PNone, PNone, PNone, PNone]"
    unfolding entity_slots
    by (auto simp: process_field_layout texts up_simps decoders_blank py_str_slots store_def
          entity_216000 dict_get_update simp del: AList.update.simps)
  have m: "map (dict_get d)
       [''entity_axis_condition_1'', ''entity_axis_condition_2'', ''entity_axis_condition_3'', ''entity_axis_condition_4'', ''entity_axis_condition_5'', ''entity_axis_condition_6'', ''entity_axis_condition_7'', ''entity_axis_condition_8'', ''entity_axis_condition_9'', ''entity_axis_condition_10'', ''entity_axis_condition_11'', ''entity_axis_condition_12'', ''entity_axis_condition_13'', ''entity_axis_condition_14'', ''entity_axis_condition_15'', ''entity_axis_condition_16'', ''entity_axis_condition_17'', ''entity_axis_condition_18'', ''entity_axis_condition_19'', ''entity_axis_condition_20'']
     = [PNone, PNone, ?X, PNone, PNone, PNone, PNone, PNone, PNone, PNone, PNone, PNone, PNone, PNone, PNone, PNone, PNone, PNone, PNone, PNone]"
    using chain by (simp add: keep)
  have "collect_conditions ''entity_axis_condition_'' d
      = filter truthy
          [PNone, PNone, ?X, PNone, PNone, PNone, PNone, PNone, PNone, PNone, PNone, PNone, PNone, PNone, PNone, PNone, PNone, PNone, PNone, PNone]"
    by (simp only: collect_conditions_eq entity_keys m)
  then have "collect_conditions ''entity_axis_condition_'' d = [?X]"
    by simp
  then show ?thesis
    by (simp add: assemble_row_def dict_get_update Let_def del: AList.update.simps)
qed


lemma line9_decodes: "\<exists>d. process_line (replicate 178 CHR '' '' @ ''216000'') = Inr d"
  by (simp add: eval_line entity_216000 del: AList.update.simps)

lemma line9_slot_3:
  "field_text (replicate 178 CHR '' '' @ ''216000'') ''entity_axis_condition_3'' = ''216000''"
  by (simp add: field_text_def mapping_def text_at strip_literal py_isspace_def)

lemma line9_other_slots:
  "\<forall>slot. 1 \<le> slot \<and> slot \<le> 20 \<and> slot \<noteq> 3
     \<longrightarrow> field_text (replicate 178 CHR '' '' @ ''216000'')
           (''entity_axis_condition_'' @ py_str slot) = []"
proof (intro allI impI)
  fix slot :: int
  assume "1 \<le> slot \<and> slot \<le> 20 \<and> slot \<noteq> 3"
  then have "slot = 1 \<or> slot = 2 \<or> slot = 4 \<or> slot = 5 \<or> slot = 6 \<or> slot = 7 \<or> slot = 8 \<or> slot = 9 \<or> slot = 10 \<or> slot = 11 \<or> slot = 12 \<or> slot = 13 \<or> slot = 14 \<or> slot = 15 \<or> slot = 16 \<or> slot = 17 \<or> slot = 18 \<or> slot = 19 \<or> slot = 20"
    by arith
  then show "field_text (replicate 178 CHR '' '' @ ''216000'')
      (''entity_axis_condition_'' @ py_str slot) = []"
    by (elim disjE)
       (simp_all add: field_text_def mapping_def py_str_slots text_before text_after slice_literal
          strip_Nil)
qed

text \<open>
  C9. A line of blanks with "216000" in entity-axis slot 3: the list of the row has the one
  element with line 1 and condition "6000", not line 6 and condition "00".
\<close>

theorem slot_216000_is_line_1_condition_6000:
  "column ''entity_axis_conditions'' (replicate 178 CHR '' '' @ ''216000'')
     = Inr (PList [PDict [(''certificate_part'', PStr ''PART_I''), (''certificate_line'', PInt 1),
                          (''condition'', PStr ''6000'')]])
   \<and> column ''entity_axis_conditions'' (replicate 178 CHR '' '' @ ''216000'')
     \<noteq> Inr (PList [PDict [(''certificate_part'', PStr ''PART_I''), (''certificate_line'', PInt 6),
                          (''condition'', PStr ''00'')]])"
proof -
  obtain d where d: "process_line (replicate 178 CHR '' '' @ ''216000'') = Inr d"
    using line9_decodes by blast
  from only_slot_3 [OF d line9_slot_3 line9_other_slots]
  show ?thesis by (simp add: column_def row_of_line_def d up_simps)
qed

text \<open>
  C9, as amended. For every line that decodes, whose entity-axis slot 3 holds "216000"
  and whose nineteen other entity-axis slots are blank, the entity-axis list of the
  assembled row has exactly one element: part \<open>PART_I\<close> (the first digit, 2, is at most
  5), certificate line 1 (the second digit) and condition "6000" (the rest of the text).
  The blank slots add nothing to the list.
\<close>

theorem entity_conditions_of_slot_3:
  assumes "process_line line = Inr d"
    and "field_text line ''entity_axis_condition_3'' = ''216000''"
    and "\<forall>n. 1 \<le> n \<and> n \<le> 20 \<and> n \<noteq> 3
           \<longrightarrow> field_text line (''entity_axis_condition_'' @ py_str n) = []"
  shows "dict_get (assemble_row d) ''entity_axis_conditions''
           = PList [PDict [(''certificate_part'', PStr ''PART_I''), (''certificate_line'', PInt 1),
                           (''condition'', PStr ''6000'')]]"
  using assms by (rule only_slot_3)

theorem entity_conditions_of_slot_3_witness:
  "\<exists>d. process_line (replicate 178 CHR '' '' @ ''216000'') = Inr d
       \<and> dict_get (assemble_row d) ''entity_axis_conditions''
           = PList [PDict [(''certificate_part'', PStr ''PART_I''), (''certificate_line'', PInt 1),
                           (''condition'', PStr ''6000'')]]"
proof -
  obtain d where d: "process_line (replicate 178 CHR '' '' @ ''216000'') = Inr d"
    using line9_decodes by blast
  from entity_conditions_of_slot_3 [OF d line9_slot_3 line9_other_slots] d
  show ?thesis by blast
qed

end
